theory Spec2Isabelle
  imports Main "HOL-Library.Sublist"
begin

section \<open>Fluster: the orchestrator of \<^verbatim>\<open>fluster/fluster.py\<close>\<close>

text \<open>
  A shallow embedding of the classes \<^verbatim>\<open>Context\<close> and \<^verbatim>\<open>Fluster\<close> of
  \<^verbatim>\<open>src/fluster/fluster.py\<close> and of the enum \<^verbatim>\<open>Codec\<close> of \<^verbatim>\<open>src/fluster/codec.py\<close>.

  Python objects are records; every record field carries a prefix naming its class
  (\<open>tv_\<close> TestVector, \<open>ts_\<close> TestSuite, \<open>dec_\<close> Decoder, \<open>ctx_\<close> Context,
  \<open>tsc_\<close> the TestSuite's Context, \<open>fl_\<close> Fluster), since the classes share attribute
  names. Mutation is explicit state passing, \<^verbatim>\<open>print\<close> and the calls into modules that are
  not part of \<^verbatim>\<open>fluster.py\<close> are events of a trace, a raised exception and \<^verbatim>\<open>sys.exit\<close>
  are values.
\<close>

subsection \<open>Data\<close>

datatype Codec = Dummy | H264 | H265 | VP8

text \<open>
  Of a test vector the orchestrator reads \<^verbatim>\<open>name\<close> and \<^verbatim>\<open>errors\<close>; of a test suite
  \<^verbatim>\<open>name\<close>, \<^verbatim>\<open>codec\<close>, the dict \<^verbatim>\<open>test_vectors\<close> (an association list in insertion
  order, which is the order of \<^verbatim>\<open>values()\<close>) and the counter \<^verbatim>\<open>test_vectors_success\<close>;
  of a decoder \<^verbatim>\<open>name\<close> and \<^verbatim>\<open>codec\<close>.
\<close>

record TestVector =
  tv_name :: string
  tv_errors :: "string list"

record TestSuite =
  ts_name :: string
  ts_codec :: Codec
  ts_test_vectors :: "(string \<times> TestVector) list"
  ts_test_vectors_success :: nat

record Decoder =
  dec_name :: string
  dec_codec :: Codec

text \<open>
  The attributes \<^verbatim>\<open>test_suites\<close> and \<^verbatim>\<open>decoders\<close> of a \<^verbatim>\<open>Context\<close> hold \<^verbatim>\<open>None\<close> or a
  list of names when the caller builds it, and a list of objects once
  \<^verbatim>\<open>_normalize_context\<close> has resolved them.
\<close>

datatype 'a param = PNone | PNames "string list" | PObjs "'a list"

record Context =
  ctx_jobs :: int
  ctx_timeout :: int
  ctx_test_suites :: "TestSuite param"
  ctx_decoders :: "Decoder param"
  ctx_test_vectors :: "string list option"
  ctx_failfast :: bool
  ctx_quiet :: bool
  ctx_reference :: bool
  ctx_summary :: bool
  ctx_keep_files :: bool
  ctx_test_suite :: "TestSuite option"
    \<comment> \<open>the attribute \<^verbatim>\<open>test_suite\<close> that the loop \<^verbatim>\<open>for ctx.test_suite in ...\<close> binds;
        \<open>None\<close> while the object has no such attribute\<close>

record TestSuiteContext =
  tsc_jobs :: int
  tsc_decoder :: Decoder
  tsc_timeout :: int
  tsc_failfast :: bool
  tsc_quiet :: bool
  tsc_results_dir :: string
  tsc_reference :: bool
  tsc_test_vectors :: "string list option"
  tsc_keep_files :: bool

text \<open>
  \<open>fl_loaded\<close> is the entry of the \<^verbatim>\<open>lru_cache\<close> of \<^verbatim>\<open>_load_test_suites\<close> for this
  instance: the cache is keyed by \<^verbatim>\<open>self\<close>.
\<close>

record Fluster =
  fl_test_suites_dir :: string
  fl_decoders_dir :: string
  fl_resources_dir :: string
  fl_results_dir :: string
  fl_verbose :: bool
  fl_test_suites :: "TestSuite list"
  fl_decoders :: "Decoder list"
  fl_loaded :: bool

datatype exn =
    NoMatch string "string list"
      \<comment> \<open>\<^verbatim>\<open>Exception(f'No {name} found matching {in_list}')\<close>: \<open>name\<close> and \<open>in_list\<close>\<close>
  | Exception string
      \<comment> \<open>an \<^verbatim>\<open>Exception\<close> with this message\<close>
  | NoMatchObjects string
      \<comment> \<open>the same exception when \<open>in_list\<close> holds objects and no name\<close>
  | AttributeError
  | KeyError string
  | IndexError

datatype outcome = Returned | Raised exn | SysExit int

datatype event =
    Print string
  | Walk string
      \<comment> \<open>\<^verbatim>\<open>os.walk(dir)\<close>\<close>
  | FromJsonFile string string
      \<comment> \<open>\<^verbatim>\<open>TestSuite.from_json_file(path, resources_dir)\<close>\<close>
  | Run TestSuite TestSuiteContext
      \<comment> \<open>\<^verbatim>\<open>test_suite.run(ts_context)\<close>\<close>
  | Download TestSuite int string bool
      \<comment> \<open>\<^verbatim>\<open>test_suite.download(jobs, resources_dir, verify=True, keep_file=keep_file)\<close>\<close>

text \<open>
  What \<^verbatim>\<open>fluster.py\<close> calls and does not define: the directory listing of \<^verbatim>\<open>os.walk\<close>
  (the root and the files of each directory, in order), \<^verbatim>\<open>TestSuite.from_json_file\<close>
  (the suite, or the text of the exception it raises) and \<^verbatim>\<open>TestSuite.run\<close> (the suite
  holding the results, or \<^verbatim>\<open>None\<close>).
\<close>

record world =
  walk :: "string \<Rightarrow> (string \<times> string list) list"
  from_json_file :: "string \<Rightarrow> string \<Rightarrow> string + TestSuite"
  run :: "TestSuite \<Rightarrow> TestSuiteContext \<Rightarrow> TestSuite option"

subsection \<open>Strings and paths\<close>

text \<open>\<^verbatim>\<open>str.lower\<close> on ASCII text: the letters A to Z move to a to z.\<close>

definition lower_char :: "char \<Rightarrow> char" where
  "lower_char c =
     (case map_of (zip ''ABCDEFGHIJKLMNOPQRSTUVWXYZ'' ''abcdefghijklmnopqrstuvwxyz'') c of
        Some l \<Rightarrow> l
      | None \<Rightarrow> c)"

definition lower :: "string \<Rightarrow> string" where
  "lower s = map lower_char s"

text \<open>\<^verbatim>\<open>sep.join(xs)\<close>.\<close>

fun join :: "string \<Rightarrow> string list \<Rightarrow> string" where
  "join sep [] = []"
| "join sep [x] = x"
| "join sep (x # y # ys) = x @ sep @ join sep (y # ys)"

text \<open>The decimal text of a number, as an f-string renders an \<^verbatim>\<open>int\<close>.\<close>

definition digit :: "nat \<Rightarrow> char" where
  "digit d = ''0123456789'' ! d"

fun str_nat :: "nat \<Rightarrow> string" where
  "str_nat n = (if n < 10 then [digit n] else str_nat (n div 10) @ [digit (n mod 10)])"

definition newline :: string where
  "newline = [CHR 0x0A]"

text \<open>\<^verbatim>\<open>str.rfind\<close> of one character: the last index that holds it, or -1.\<close>

fun rfind_from :: "char \<Rightarrow> string \<Rightarrow> int \<Rightarrow> int \<Rightarrow> int" where
  "rfind_from c [] i found = found"
| "rfind_from c (x # xs) i found = rfind_from c xs (i + 1) (if x = c then i else found)"

definition rfind :: "string \<Rightarrow> char \<Rightarrow> int" where
  "rfind p c = rfind_from c p 0 (- 1)"

text \<open>
  \<^verbatim>\<open>os.path.splitext\<close> (posixpath): the extension starts at the last dot of the last
  path component, unless only dots come before it in that component.
\<close>

definition splitext :: "string \<Rightarrow> string \<times> string" where
  "splitext p =
     (let sepIndex = rfind p (CHR ''/'');
          dotIndex = rfind p (CHR ''.'')
      in if dotIndex > sepIndex \<and>
            list_ex (\<lambda>c. c \<noteq> CHR ''.'')
              (take (nat (dotIndex - (sepIndex + 1))) (drop (nat (sepIndex + 1)) p))
         then (take (nat dotIndex) p, drop (nat dotIndex) p)
         else (p, []))"

text \<open>\<^verbatim>\<open>os.path.join(a, b)\<close> (posixpath).\<close>

definition path_join :: "string \<Rightarrow> string \<Rightarrow> string" where
  "path_join a b =
     (if b \<noteq> [] \<and> hd b = CHR ''/'' then b
      else if a = [] \<or> last a = CHR ''/'' then a @ b
      else a @ ''/'' @ b)"

subsection \<open>\<^verbatim>\<open>Context.to_test_suite_context\<close>\<close>

definition to_test_suite_context ::
  "Context \<Rightarrow> Decoder \<Rightarrow> string \<Rightarrow> string list option \<Rightarrow> TestSuiteContext" where
  "to_test_suite_context self decoder results_dir test_vectors =
     \<lparr> tsc_jobs = ctx_jobs self, tsc_decoder = decoder, tsc_timeout = ctx_timeout self,
       tsc_failfast = ctx_failfast self, tsc_quiet = ctx_quiet self,
       tsc_results_dir = results_dir, tsc_reference = ctx_reference self,
       tsc_test_vectors = test_vectors, tsc_keep_files = ctx_keep_files self \<rparr>"

subsection \<open>\<^verbatim>\<open>Fluster._load_test_suites\<close>\<close>

text \<open>The body of the inner loop, for one file of one directory.\<close>

definition load_file ::
  "world \<Rightarrow> string \<Rightarrow> Fluster \<times> event list \<Rightarrow> string \<Rightarrow> Fluster \<times> event list" where
  "load_file w root st file =
     (case st of (self, tr) \<Rightarrow>
        if snd (splitext file) = ''.json'' then
          (let tr1 = (if fl_verbose self
                      then tr @ [Print (''Test suite found: '' @ file)] else tr);
               path = path_join root file;
               tr2 = tr1 @ [FromJsonFile path (fl_resources_dir self)]
           in case from_json_file w path (fl_resources_dir self) of
                Inr test_suite \<Rightarrow>
                  (self\<lparr>fl_test_suites := fl_test_suites self @ [test_suite]\<rparr>, tr2)
              | Inl ex \<Rightarrow>
                  (self, tr2 @ [Print (''Error loading test suite '' @ file @ '': '' @ ex)]))
        else (self, tr))"

definition load_dir ::
  "world \<Rightarrow> Fluster \<times> event list \<Rightarrow> string \<times> string list \<Rightarrow> Fluster \<times> event list" where
  "load_dir w st entry = (case entry of (root, files) \<Rightarrow> foldl (load_file w root) st files)"

text \<open>
  The decorated method: the body runs on the first call for an instance and the cache
  answers every later call.
\<close>

definition load_test_suites :: "world \<Rightarrow> Fluster \<Rightarrow> Fluster \<times> event list" where
  "load_test_suites w self =
     (if fl_loaded self then (self, [])
      else (case foldl (load_dir w) (self, [Walk (fl_test_suites_dir self)])
                   (walk w (fl_test_suites_dir self)) of
              (self1, tr) \<Rightarrow> (self1\<lparr>fl_loaded := True\<rparr>, tr)))"

subsection \<open>\<^verbatim>\<open>Fluster._get_run_param\<close> and \<^verbatim>\<open>Fluster._normalize_context\<close>\<close>

text \<open>
  \<^verbatim>\<open>if xs: xs = [x.lower() for x in xs]\<close>: \<^verbatim>\<open>None\<close> and the empty list are falsy and
  stay as they are; an object that is not a string has no \<^verbatim>\<open>lower\<close>.
\<close>

definition lower_names :: "'a param \<Rightarrow> exn + 'a param" where
  "lower_names p =
     (case p of
        PNone \<Rightarrow> Inr PNone
      | PNames xs \<Rightarrow> Inr (if xs \<noteq> [] then PNames (map lower xs) else PNames xs)
      | PObjs xs \<Rightarrow> (if xs \<noteq> [] then Inl AttributeError else Inr (PObjs xs)))"

text \<open>
  \<open>name_of\<close> reads the attribute \<^verbatim>\<open>name\<close> of an element of \<open>check_list\<close>. A non-empty
  \<open>in_list\<close> of objects holds no string, so nothing matches it.
\<close>

definition get_run_param ::
  "'a param \<Rightarrow> 'a list \<Rightarrow> ('a \<Rightarrow> string) \<Rightarrow> string \<Rightarrow> exn + 'a list" where
  "get_run_param in_list check_list name_of name =
     (case in_list of
        PNames ns \<Rightarrow>
          (if ns \<noteq> [] then
             (let run = filter (\<lambda>x. lower (name_of x) \<in> set ns) check_list
              in if run = [] then Inl (NoMatch name ns) else Inr run)
           else Inr check_list)
      | PObjs os \<Rightarrow> (if os \<noteq> [] then Inl (NoMatchObjects name) else Inr check_list)
      | PNone \<Rightarrow> Inr check_list)"

text \<open>
  The context is mutated in place, so the result carries the context as the method leaves
  it, also when it raises.
\<close>

definition normalize_context :: "Fluster \<Rightarrow> Context \<Rightarrow> exn option \<times> Context" where
  "normalize_context self ctx =
     (case lower_names (ctx_test_suites ctx) of
        Inl e \<Rightarrow> (Some e, ctx)
      | Inr p1 \<Rightarrow>
     (let ctx1 = ctx\<lparr>ctx_test_suites := p1\<rparr> in
      case lower_names (ctx_decoders ctx1) of
        Inl e \<Rightarrow> (Some e, ctx1)
      | Inr p2 \<Rightarrow>
     (let ctx2 = ctx1\<lparr>ctx_decoders := p2\<rparr>;
          ctx3 = (case ctx_test_vectors ctx2 of
                    Some (v # vs) \<Rightarrow> ctx2\<lparr>ctx_test_vectors := Some (map lower (v # vs))\<rparr>
                  | _ \<Rightarrow> ctx2)
      in
      case get_run_param (ctx_test_suites ctx3) (fl_test_suites self) ts_name ''test suite'' of
        Inl e \<Rightarrow> (Some e, ctx3)
      | Inr run1 \<Rightarrow>
     (let ctx4 = ctx3\<lparr>ctx_test_suites := PObjs run1\<rparr> in
      case get_run_param (ctx_decoders ctx4) (fl_decoders self) dec_name ''decoders'' of
        Inl e \<Rightarrow> (Some e, ctx4)
      | Inr run2 \<Rightarrow> (None, ctx4\<lparr>ctx_decoders := PObjs run2\<rparr>)))))"

subsection \<open>\<^verbatim>\<open>Fluster._generate_summary\<close>\<close>

text \<open>The two marks of a cell, as the bytes of their UTF-8 text, each with its bar.\<close>

definition check_mark :: string where
  "check_mark = [CHR 0xE2, CHR 0x9C, CHR 0x94, CHR 0xEF, CHR 0xB8, CHR 0x8F] @ ''|''"

definition cross_mark :: string where
  "cross_mark = [CHR 0xE2, CHR 0x9D, CHR 0x8C] @ ''|''"

text \<open>
  The loop over \<open>test_suites\<close> for the vector named \<open>nm\<close>; \<^verbatim>\<open>test_suite.test_vectors[nm]\<close>
  raises \<^verbatim>\<open>KeyError\<close> when the key is missing.
\<close>

fun summary_cells :: "string \<Rightarrow> TestSuite list \<Rightarrow> string \<Rightarrow> exn + string" where
  "summary_cells nm [] output = Inr output"
| "summary_cells nm (test_suite # rest) output =
     (case map_of (ts_test_vectors test_suite) nm of
        None \<Rightarrow> Inl (KeyError nm)
      | Some tvector \<Rightarrow>
          summary_cells nm rest
            (output @ (if tv_errors tvector = [] then check_mark else cross_mark)))"

text \<open>The loop over the values of the first result's \<^verbatim>\<open>test_vectors\<close>.\<close>

fun summary_rows :: "TestVector list \<Rightarrow> TestSuite list \<Rightarrow> string \<Rightarrow> exn + string" where
  "summary_rows [] test_suites output = Inr output"
| "summary_rows (test_vector # rest) test_suites output =
     (case summary_cells (tv_name test_vector) test_suites
             (output @ newline @ ''|'' @ tv_name test_vector @ ''|'') of
        Inl e \<Rightarrow> Inl e
      | Inr output1 \<Rightarrow> summary_rows rest test_suites output1)"

definition summary_totals :: "TestSuite list \<Rightarrow> string \<Rightarrow> string" where
  "summary_totals test_suites output =
     foldl (\<lambda>out test_suite.
              out @ str_nat (ts_test_vectors_success test_suite) @ ''/'' @
                str_nat (length (ts_test_vectors test_suite)) @ ''|'')
           output test_suites"

text \<open>The text that \<^verbatim>\<open>_generate_summary\<close> builds in \<^verbatim>\<open>output\<close>.\<close>

definition summary_output :: "(Decoder \<times> TestSuite) list \<Rightarrow> exn + string" where
  "summary_output results =
     (case results of
        [] \<Rightarrow> Inl IndexError
      | first # _ \<Rightarrow>
          (let test_suites = map snd results;
               output1 = foldl (\<lambda>out res. out @ dec_name (fst res) @ ''|'') ''|Test|'' results;
               output2 = output1 @ newline @ ''|-|'' @ concat (replicate (length results) ''-|'')
           in case summary_rows (map snd (ts_test_vectors (snd first))) test_suites output2 of
                Inl e \<Rightarrow> Inl e
              | Inr output3 \<Rightarrow>
                  Inr (summary_totals test_suites (output3 @ newline @ ''|TOTAL|''))))"

text \<open>The method: what it raises, if it does, and what it has printed.\<close>

definition generate_summary :: "(Decoder \<times> TestSuite) list \<Rightarrow> exn option \<times> event list" where
  "generate_summary results =
     (case results of
        [] \<Rightarrow> (Some IndexError, [])
      | first # _ \<Rightarrow>
          (let test_suite_name = ts_name (snd first);
               decoder_names = map (\<lambda>res. dec_name (fst res)) results;
               heading = Print (''Generating summary for test suite '' @ test_suite_name @
                                '' and decoders '' @ join '', '' decoder_names @ '':'' @ newline)
           in case summary_output results of
                Inl e \<Rightarrow> (Some e, [heading])
              | Inr output \<Rightarrow> (None, [heading, Print output])))"

subsection \<open>\<^verbatim>\<open>Fluster.run_test_suites\<close>\<close>

text \<open>
  The loop that looks for a vector with errors:
  \<^verbatim>\<open>success = True; for test_vector in ...values(): if test_vector.errors: success = False; break\<close>.
\<close>

fun vectors_success :: "TestVector list \<Rightarrow> bool" where
  "vectors_success [] = True"
| "vectors_success (test_vector # rest) =
     (if tv_errors test_vector \<noteq> [] then False else vectors_success rest)"

text \<open>
  The inner loop \<^verbatim>\<open>for decoder in ctx.decoders\<close> over the decoders still to visit. Its
  state is \<open>(results, error, trace)\<close>; the first component of its value is \<open>True\<close> when
  the loop has called \<^verbatim>\<open>sys.exit(1)\<close>.
\<close>

type_synonym inner_state = "(Decoder \<times> TestSuite) list \<times> bool \<times> event list"

fun run_decoders ::
  "world \<Rightarrow> Fluster \<Rightarrow> Context \<Rightarrow> TestSuite \<Rightarrow> Decoder list \<Rightarrow> inner_state \<Rightarrow>
   bool \<times> inner_state" where
  "run_decoders w self ctx test_suite [] st = (False, st)"
| "run_decoders w self ctx test_suite (decoder # rest) (results, error, tr) =
     (if dec_codec decoder \<noteq> ts_codec test_suite
      then run_decoders w self ctx test_suite rest (results, error, tr)
      else
        (let ts_context = to_test_suite_context ctx decoder (fl_results_dir self)
                            (ctx_test_vectors ctx);
             tr1 = tr @ [Run test_suite ts_context]
         in case run w test_suite ts_context of
              None \<Rightarrow> run_decoders w self ctx test_suite rest (results, error, tr1)
            | Some test_suite_res \<Rightarrow>
                (let results1 = results @ [(decoder, test_suite_res)];
                     success = vectors_success (map snd (ts_test_vectors test_suite_res))
                 in if \<not> success then
                      (if ctx_failfast ctx then (True, (results1, error, tr1))
                       else run_decoders w self ctx test_suite rest (results1, True, tr1))
                    else run_decoders w self ctx test_suite rest (results1, error, tr1))))"

text \<open>
  A normalized context holds the resolved objects; the loops iterate over them.
\<close>

definition objects :: "'a param \<Rightarrow> 'a list" where
  "objects p = (case p of PObjs xs \<Rightarrow> xs | _ \<Rightarrow> [])"

text \<open>
  The outer loop \<^verbatim>\<open>for ctx.test_suite in ctx.test_suites\<close> over the suites still to
  visit, and the \<^verbatim>\<open>if error: sys.exit(1)\<close> after it. Its state is the context, the flag
  \<open>error\<close> and the trace.
\<close>

fun run_suites ::
  "world \<Rightarrow> Fluster \<Rightarrow> TestSuite list \<Rightarrow> Context \<times> bool \<times> event list \<Rightarrow>
   outcome \<times> Context \<times> event list" where
  "run_suites w self [] (ctx, error, tr) =
     (if error then (SysExit 1, ctx, tr) else (Returned, ctx, tr))"
| "run_suites w self (test_suite # rest) (ctx, error, tr) =
     (let ctx1 = ctx\<lparr>ctx_test_suite := Some test_suite\<rparr> in
      case run_decoders w self ctx1 test_suite (objects (ctx_decoders ctx1)) ([], error, tr) of
        (True, (results, error1, tr1)) \<Rightarrow> (SysExit 1, ctx1, tr1)
      | (False, (results, error1, tr1)) \<Rightarrow>
          (if ctx_summary ctx1 \<and> results \<noteq> [] then
             (case generate_summary results of
                (Some e, out) \<Rightarrow> (Raised e, ctx1, tr1 @ out)
              | (None, out) \<Rightarrow> run_suites w self rest (ctx1, error1, tr1 @ out))
           else run_suites w self rest (ctx1, error1, tr1)))"

text \<open>
  The method: how the call ends, the instance and the context as it leaves them, and the
  trace.
\<close>

definition run_test_suites ::
  "world \<Rightarrow> Fluster \<Rightarrow> Context \<Rightarrow> outcome \<times> Fluster \<times> Context \<times> event list" where
  "run_test_suites w self ctx =
     (case load_test_suites w self of (self1, tr) \<Rightarrow>
     (case normalize_context self1 ctx of
        (Some e, ctx1) \<Rightarrow> (Raised e, self1, ctx1, tr)
      | (None, ctx1) \<Rightarrow>
          (let decs = objects (ctx_decoders ctx1) in
           if ctx_reference ctx1 \<and> (decs = [] \<or> length decs > 1) then
             (let dec_names = map dec_name decs
              in (Raised (Exception (''Only one decoder can be the reference. Given: '' @
                                     join '', '' dec_names)), self1, ctx1, tr))
           else
             (let tr1 = (if ctx_reference ctx1 then tr @ [Print ''Reference mode''] else tr)
              in case run_suites w self1 (objects (ctx_test_suites ctx1)) (ctx1, False, tr1) of
                   (out, ctx2, tr2) \<Rightarrow> (out, self1, ctx2, tr2)))))"

subsection \<open>\<^verbatim>\<open>Fluster.download_test_suites\<close>\<close>

definition download_test_suites ::
  "world \<Rightarrow> Fluster \<Rightarrow> string list option \<Rightarrow> int \<Rightarrow> bool \<Rightarrow>
   outcome \<times> Fluster \<times> event list" where
  "download_test_suites w self test_suites jobs keep_file =
     (case load_test_suites w self of (self1, tr) \<Rightarrow>
        (let selected =
               (case test_suites of
                  Some (n # ns) \<Rightarrow> filter (\<lambda>t. ts_name t \<in> set (n # ns)) (fl_test_suites self1)
                | _ \<Rightarrow> fl_test_suites self1)
         in (Returned, self1,
             tr @ map (\<lambda>test_suite. Download test_suite jobs (fl_resources_dir self1) keep_file)
                    selected)))"

section \<open>The words of the specification\<close>

subsection \<open>The catalogue\<close>

text \<open>
  A suite definition is a file whose extension is \<^verbatim>\<open>.json\<close>. The scan visits the files of
  every directory that \<^verbatim>\<open>os.walk\<close> lists, each with the root of its directory.
\<close>

definition is_definition :: "string \<Rightarrow> bool" where
  "is_definition file = (snd (splitext file) = ''.json'')"

definition scanned_files :: "world \<Rightarrow> Fluster \<Rightarrow> (string \<times> string) list" where
  "scanned_files w self =
     concat (map (\<lambda>entry. map (\<lambda>file. (fst entry, file)) (snd entry))
                 (walk w (fl_test_suites_dir self)))"

definition definition_files :: "world \<Rightarrow> Fluster \<Rightarrow> (string \<times> string) list" where
  "definition_files w self = filter (\<lambda>p. is_definition (snd p)) (scanned_files w self)"

definition parse_file :: "world \<Rightarrow> Fluster \<Rightarrow> string \<Rightarrow> string \<Rightarrow> string + TestSuite" where
  "parse_file w self root file = from_json_file w (path_join root file) (fl_resources_dir self)"

text \<open>The definitions that parse, and the ones that do not, each with its error.\<close>

definition loaded_suites :: "world \<Rightarrow> Fluster \<Rightarrow> TestSuite list" where
  "loaded_suites w self =
     concat (map (\<lambda>p. case parse_file w self (fst p) (snd p) of
                         Inr test_suite \<Rightarrow> [test_suite] | Inl ex \<Rightarrow> [])
                 (definition_files w self))"

definition parse_errors :: "world \<Rightarrow> Fluster \<Rightarrow> (string \<times> string) list" where
  "parse_errors w self =
     concat (map (\<lambda>p. case parse_file w self (fst p) (snd p) of
                         Inr test_suite \<Rightarrow> [] | Inl ex \<Rightarrow> [(snd p, ex)])
                 (definition_files w self))"

text \<open>The line that reports a definition that does not parse, and how to tell it in a trace.\<close>

definition error_report :: "string \<Rightarrow> string \<Rightarrow> event" where
  "error_report file ex = Print (''Error loading test suite '' @ file @ '': '' @ ex)"

definition is_error_report :: "event \<Rightarrow> bool" where
  "is_error_report e =
     (case e of Print s \<Rightarrow> prefix ''Error loading test suite '' s | _ \<Rightarrow> False)"

definition is_parse_call :: "event \<Rightarrow> bool" where
  "is_parse_call e = (case e of FromJsonFile path resources_dir \<Rightarrow> True | _ \<Rightarrow> False)"

text \<open>What one file of the scan adds to the suites and to the trace.\<close>

definition file_suites :: "world \<Rightarrow> Fluster \<Rightarrow> string \<Rightarrow> string \<Rightarrow> TestSuite list" where
  "file_suites w self root file =
     (if is_definition file
      then (case parse_file w self root file of Inr test_suite \<Rightarrow> [test_suite] | Inl ex \<Rightarrow> [])
      else [])"

definition file_events :: "world \<Rightarrow> Fluster \<Rightarrow> string \<Rightarrow> string \<Rightarrow> event list" where
  "file_events w self root file =
     (if is_definition file
      then (if fl_verbose self then [Print (''Test suite found: '' @ file)] else []) @
           [FromJsonFile (path_join root file) (fl_resources_dir self)] @
           (case parse_file w self root file of
              Inr test_suite \<Rightarrow> [] | Inl ex \<Rightarrow> [error_report file ex])
      else [])"

subsection \<open>The run\<close>

text \<open>The calls of \<^verbatim>\<open>test_suite.run\<close> that a trace holds, in order.\<close>

definition runs :: "event list \<Rightarrow> (TestSuite \<times> TestSuiteContext) list" where
  "runs tr = concat (map (\<lambda>e. case e of Run s c \<Rightarrow> [(s, c)] | _ \<Rightarrow> []) tr)"

text \<open>
  The context that the run of a suite receives for a decoder, what that run gives back,
  and whether it holds a vector with errors.
\<close>

definition ts_context_of :: "Fluster \<Rightarrow> Context \<Rightarrow> Decoder \<Rightarrow> TestSuiteContext" where
  "ts_context_of self ctx d =
     to_test_suite_context ctx d (fl_results_dir self) (ctx_test_vectors ctx)"

definition pair_result ::
  "world \<Rightarrow> Fluster \<Rightarrow> Context \<Rightarrow> TestSuite \<Rightarrow> Decoder \<Rightarrow> TestSuite option" where
  "pair_result w self ctx s d = run w s (ts_context_of self ctx d)"

definition has_errors :: "TestSuite \<Rightarrow> bool" where
  "has_errors r = list_ex (\<lambda>tv. tv_errors tv \<noteq> []) (map snd (ts_test_vectors r))"

definition pair_fails :: "world \<Rightarrow> Fluster \<Rightarrow> Context \<Rightarrow> TestSuite \<Rightarrow> Decoder \<Rightarrow> bool" where
  "pair_fails w self ctx s d =
     (case pair_result w self ctx s d of Some r \<Rightarrow> has_errors r | None \<Rightarrow> False)"

text \<open>The decoders of a selection whose codec is the suite's, and the pairs they form.\<close>

definition matching :: "TestSuite \<Rightarrow> Decoder list \<Rightarrow> Decoder list" where
  "matching s decs = filter (\<lambda>d. dec_codec d = ts_codec s) decs"

definition selected_pairs :: "TestSuite list \<Rightarrow> Decoder list \<Rightarrow> (TestSuite \<times> Decoder) list" where
  "selected_pairs suites decs = concat (map (\<lambda>s. map (Pair s) (matching s decs)) suites)"

text \<open>A list up to and including its first element that satisfies \<open>P\<close>.\<close>

fun up_to_first :: "('a \<Rightarrow> bool) \<Rightarrow> 'a list \<Rightarrow> 'a list" where
  "up_to_first P [] = []"
| "up_to_first P (x # xs) = (if P x then [x] else x # up_to_first P xs)"

text \<open>The result sets of the decoders of one suite: the runs that gave a result.\<close>

definition results_of ::
  "world \<Rightarrow> Fluster \<Rightarrow> Context \<Rightarrow> TestSuite \<Rightarrow> Decoder list \<Rightarrow> (Decoder \<times> TestSuite) list" where
  "results_of w self ctx s ds =
     concat (map (\<lambda>d. case pair_result w self ctx s d of Some r \<Rightarrow> [(d, r)] | None \<Rightarrow> []) ds)"

text \<open>
  The requirement of the summary on the result sets of a suite: every vector of the first
  result set is found, under its name, in each result set.
\<close>

definition shared_vector_names :: "(Decoder \<times> TestSuite) list \<Rightarrow> bool" where
  "shared_vector_names results =
     list_all (\<lambda>res.
        list_all (\<lambda>tv. map_of (ts_test_vectors (snd res)) (tv_name tv) \<noteq> None)
                 (map snd (ts_test_vectors (snd (hd results)))))
       results"

text \<open>
  The summaries of a run can be rendered: when the context asks for summaries, the result
  sets of every suite share their vector names.
\<close>

definition summaries_defined ::
  "world \<Rightarrow> Fluster \<Rightarrow> Context \<Rightarrow> TestSuite list \<Rightarrow> Decoder list \<Rightarrow> bool" where
  "summaries_defined w self ctx suites decs =
     (\<not> ctx_summary ctx \<or>
      list_all (\<lambda>s. shared_vector_names (results_of w self ctx s (matching s decs))) suites)"

text \<open>The decoders that the inner loop runs for a suite.\<close>

definition executed_decoders ::
  "world \<Rightarrow> Fluster \<Rightarrow> Context \<Rightarrow> TestSuite \<Rightarrow> Decoder list \<Rightarrow> Decoder list" where
  "executed_decoders w self ctx s decs =
     (if ctx_failfast ctx then up_to_first (pair_fails w self ctx s) (matching s decs)
      else matching s decs)"

text \<open>
  The pairs that a run executes: every selected pair with equal codecs, or, when the
  context asks to fail fast, those up to and including the first one whose run holds a
  vector with errors. \<open>run_of\<close> is the call of \<^verbatim>\<open>test_suite.run\<close> for a pair.
\<close>

definition fails_pair :: "world \<Rightarrow> Fluster \<Rightarrow> Context \<Rightarrow> TestSuite \<times> Decoder \<Rightarrow> bool" where
  "fails_pair w self ctx p = pair_fails w self ctx (fst p) (snd p)"

definition executed_pairs ::
  "world \<Rightarrow> Fluster \<Rightarrow> Context \<Rightarrow> TestSuite list \<Rightarrow> Decoder list \<Rightarrow> (TestSuite \<times> Decoder) list" where
  "executed_pairs w self ctx suites decs =
     (if ctx_failfast ctx then up_to_first (fails_pair w self ctx) (selected_pairs suites decs)
      else selected_pairs suites decs)"

definition run_of :: "Fluster \<Rightarrow> Context \<Rightarrow> TestSuite \<times> Decoder \<Rightarrow> TestSuite \<times> TestSuiteContext" where
  "run_of self ctx p = (fst p, ts_context_of self ctx (snd p))"

subsection \<open>The summary\<close>

text \<open>The line printed before the table.\<close>

definition summary_heading :: "(Decoder \<times> TestSuite) list \<Rightarrow> string" where
  "summary_heading results =
     ''Generating summary for test suite '' @ ts_name (snd (hd results)) @
     '' and decoders '' @ join '', '' (map (\<lambda>res. dec_name (fst res)) results) @ '':'' @ newline"

text \<open>
  The table in the words of the specification: a header naming each decoder, a separator,
  one row per vector of the first result set with one mark per decoder (passed when the
  vector of that name holds no error in that decoder's result set), and a totals row with,
  for each decoder, the number of its vectors without errors over the number of its vectors.
\<close>

definition vector_passes :: "TestSuite \<Rightarrow> string \<Rightarrow> bool" where
  "vector_passes r nm =
     (case map_of (ts_test_vectors r) nm of Some tv \<Rightarrow> tv_errors tv = [] | None \<Rightarrow> False)"

definition mark :: "bool \<Rightarrow> string" where
  "mark passed = (if passed then check_mark else cross_mark)"

definition successes :: "TestSuite \<Rightarrow> nat" where
  "successes r = length (filter (\<lambda>tv. tv_errors tv = []) (map snd (ts_test_vectors r)))"

definition header_row :: "(Decoder \<times> TestSuite) list \<Rightarrow> string" where
  "header_row results = ''|Test|'' @ concat (map (\<lambda>res. dec_name (fst res) @ ''|'') results)"

definition separator_row :: "(Decoder \<times> TestSuite) list \<Rightarrow> string" where
  "separator_row results = ''|-|'' @ concat (replicate (length results) ''-|'')"

definition vector_row :: "(Decoder \<times> TestSuite) list \<Rightarrow> TestVector \<Rightarrow> string" where
  "vector_row results tv =
     ''|'' @ tv_name tv @ ''|'' @
     concat (map (\<lambda>res. mark (vector_passes (snd res) (tv_name tv))) results)"

definition totals_row :: "(Decoder \<times> TestSuite) list \<Rightarrow> string" where
  "totals_row results =
     ''|TOTAL|'' @
     concat (map (\<lambda>res. str_nat (successes (snd res)) @ ''/'' @
                         str_nat (length (ts_test_vectors (snd res))) @ ''|'') results)"

definition table_lines :: "(Decoder \<times> TestSuite) list \<Rightarrow> string list" where
  "table_lines results =
     [header_row results, separator_row results] @
     map (vector_row results) (map snd (ts_test_vectors (snd (hd results)))) @
     [totals_row results]"

text \<open>
  Modelled from the spec: the counter \<^verbatim>\<open>test_vectors_success\<close> is set by \<^verbatim>\<open>TestSuite.run\<close>,
  which is not part of \<^verbatim>\<open>fluster.py\<close>; the specification calls it "a derived success
  count", so it is the number of vectors of the result set that hold no error.
\<close>

definition success_counted :: "(Decoder \<times> TestSuite) list \<Rightarrow> bool" where
  "success_counted results =
     list_all (\<lambda>res. ts_test_vectors_success (snd res) = successes (snd res)) results"

subsection \<open>The selection\<close>

text \<open>
  A context as the caller builds it holds \<^verbatim>\<open>None\<close> or names in \<^verbatim>\<open>test_suites\<close> and
  \<^verbatim>\<open>decoders\<close>. \<open>requested\<close> is the filter such an attribute holds (none when it is
  \<^verbatim>\<open>None\<close> or empty), \<open>lowered\<close> the attribute with its names in lower case.
\<close>

definition caller_param :: "'a param \<Rightarrow> bool" where
  "caller_param p = (case p of PObjs xs \<Rightarrow> False | _ \<Rightarrow> True)"

definition caller_context :: "Context \<Rightarrow> bool" where
  "caller_context ctx = (caller_param (ctx_test_suites ctx) \<and> caller_param (ctx_decoders ctx))"

definition requested :: "'a param \<Rightarrow> string list" where
  "requested p = (case p of PNames ns \<Rightarrow> ns | _ \<Rightarrow> [])"

definition lowered :: "'a param \<Rightarrow> 'a param" where
  "lowered p = (case p of PNames ns \<Rightarrow> PNames (map lower ns) | _ \<Rightarrow> p)"

text \<open>
  The selection of the specification: everything when there is no filter, and otherwise
  the entries whose name equals a name of the filter, letter case apart.
\<close>

definition selection :: "string list \<Rightarrow> 'a list \<Rightarrow> ('a \<Rightarrow> string) \<Rightarrow> 'a list" where
  "selection names check_list name_of =
     (if names = [] then check_list
      else filter (\<lambda>x. list_ex (\<lambda>n. lower (name_of x) = lower n) names) check_list)"

text \<open>The catalogue and the registry that a run resolves its filters against.\<close>

definition catalogue :: "world \<Rightarrow> Fluster \<Rightarrow> TestSuite list" where
  "catalogue w self = fl_test_suites (fst (load_test_suites w self))"

definition selected_suites :: "world \<Rightarrow> Fluster \<Rightarrow> Context \<Rightarrow> TestSuite list" where
  "selected_suites w self ctx =
     selection (requested (ctx_test_suites ctx)) (catalogue w self) ts_name"

definition selected_decoders :: "Fluster \<Rightarrow> Context \<Rightarrow> Decoder list" where
  "selected_decoders self ctx =
     selection (requested (ctx_decoders ctx)) (fl_decoders self) dec_name"

text \<open>
  The filters of a caller's context resolve: a filter of suites selects a suite and a
  filter of decoders selects a decoder.
\<close>

definition resolves :: "world \<Rightarrow> Fluster \<Rightarrow> Context \<Rightarrow> bool" where
  "resolves w self ctx =
     (caller_context ctx \<and>
      (requested (ctx_test_suites ctx) = [] \<or> selected_suites w self ctx \<noteq> []) \<and>
      (requested (ctx_decoders ctx) = [] \<or> selected_decoders self ctx \<noteq> []))"

text \<open>The context as \<^verbatim>\<open>_normalize_context\<close> leaves it when the filters resolve.\<close>

definition resolved_context :: "world \<Rightarrow> Fluster \<Rightarrow> Context \<Rightarrow> Context" where
  "resolved_context w self ctx =
     ctx\<lparr>ctx_test_suites := PObjs (selected_suites w self ctx),
         ctx_decoders := PObjs (selected_decoders self ctx),
         ctx_test_vectors := map_option (map lower) (ctx_test_vectors ctx)\<rparr>"

text \<open>The message of the error that reference mode raises for these decoders.\<close>

definition reference_error :: "Decoder list \<Rightarrow> exn" where
  "reference_error decs =
     Exception (''Only one decoder can be the reference. Given: '' @
                join '', '' (map dec_name decs))"

text \<open>
  Reference mode asks for exactly one selected decoder. A run is configured when its
  filters resolve and this holds: it then reaches the loops.
\<close>

definition reference_ok :: "Fluster \<Rightarrow> Context \<Rightarrow> bool" where
  "reference_ok self ctx = (\<not> ctx_reference ctx \<or> length (selected_decoders self ctx) = 1)"

definition configured :: "world \<Rightarrow> Fluster \<Rightarrow> Context \<Rightarrow> bool" where
  "configured w self ctx = (resolves w self ctx \<and> reference_ok self ctx)"

text \<open>How a call of \<^verbatim>\<open>run_test_suites\<close> ends, the context it leaves and its trace.\<close>

definition outcome_of :: "outcome \<times> Fluster \<times> Context \<times> event list \<Rightarrow> outcome" where
  "outcome_of r = fst r"

definition context_of :: "outcome \<times> Fluster \<times> Context \<times> event list \<Rightarrow> Context" where
  "context_of r = fst (snd (snd r))"

definition trace_of :: "outcome \<times> Fluster \<times> Context \<times> event list \<Rightarrow> event list" where
  "trace_of r = snd (snd (snd r))"

text \<open>
  The pairs of a run with equal codecs, in the order of the loops; whether the run of a
  pair holds a vector with errors; the call of \<^verbatim>\<open>test_suite.run\<close> for a pair; and the
  requirement of the summaries.
\<close>

definition loaded :: "world \<Rightarrow> Fluster \<Rightarrow> Fluster" where
  "loaded w self = fst (load_test_suites w self)"

definition run_pairs :: "world \<Rightarrow> Fluster \<Rightarrow> Context \<Rightarrow> (TestSuite \<times> Decoder) list" where
  "run_pairs w self ctx = selected_pairs (selected_suites w self ctx) (selected_decoders self ctx)"

definition run_fails :: "world \<Rightarrow> Fluster \<Rightarrow> Context \<Rightarrow> TestSuite \<times> Decoder \<Rightarrow> bool" where
  "run_fails w self ctx p = fails_pair w (loaded w self) (resolved_context w self ctx) p"

definition run_call ::
  "world \<Rightarrow> Fluster \<Rightarrow> Context \<Rightarrow> TestSuite \<times> Decoder \<Rightarrow> TestSuite \<times> TestSuiteContext" where
  "run_call w self ctx p = run_of (loaded w self) (resolved_context w self ctx) p"


definition run_summaries_defined :: "world \<Rightarrow> Fluster \<Rightarrow> Context \<Rightarrow> bool" where
  "run_summaries_defined w self ctx =
     summaries_defined w (loaded w self) (resolved_context w self ctx)
       (selected_suites w self ctx) (selected_decoders self ctx)"

text \<open>The pairs that a configured run executes.\<close>

definition run_executed :: "world \<Rightarrow> Fluster \<Rightarrow> Context \<Rightarrow> (TestSuite \<times> Decoder) list" where
  "run_executed w self ctx =
     executed_pairs w (loaded w self) (resolved_context w self ctx)
       (selected_suites w self ctx) (selected_decoders self ctx)"

text \<open>The trace when the loops start.\<close>

definition start_trace :: "world \<Rightarrow> Fluster \<Rightarrow> Context \<Rightarrow> event list" where
  "start_trace w self ctx =
     (if ctx_reference ctx then snd (load_test_suites w self) @ [Print ''Reference mode'']
      else snd (load_test_suites w self))"

text \<open>The suites that a trace downloads, in order.\<close>

definition downloads :: "event list \<Rightarrow> TestSuite list" where
  "downloads tr = concat (map (\<lambda>e. case e of Download t j r k \<Rightarrow> [t] | _ \<Rightarrow> []) tr)"

section \<open>Concrete inputs\<close>

text \<open>
  A directory with a well-formed definition, a malformed one and a file that is no
  definition, and an instance that has loaded nothing yet.
\<close>

definition good_suite :: TestSuite where
  "good_suite = \<lparr> ts_name = ''JVT-AVC_V1'', ts_codec = H264,
       ts_test_vectors = [(''v1'', \<lparr> tv_name = ''v1'', tv_errors = [] \<rparr>)],
       ts_test_vectors_success = 0 \<rparr>"

definition catalogue_world :: world where
  "catalogue_world =
     \<lparr> walk = (\<lambda>dir. [(dir, [''good.json'', ''bad.json'', ''README.md''])]),
       from_json_file = (\<lambda>path resources_dir.
          if path = ''test_suites/good.json'' then Inr good_suite
          else Inl ''Expecting value''),
       run = (\<lambda>test_suite ts_context. None) \<rparr>"

definition fresh_fluster :: Fluster where
  "fresh_fluster =
     \<lparr> fl_test_suites_dir = ''test_suites'', fl_decoders_dir = ''decoders'',
       fl_resources_dir = ''resources'', fl_results_dir = ''resources'', fl_verbose = False,
       fl_test_suites = [], fl_decoders = [], fl_loaded = False \<rparr>"

text \<open>
  A catalogue of two suites and a registry of three decoders, already loaded, and two
  worlds in which a run of a suite keeps the vectors that the filter names (all of them
  without a filter) and gives no result when none is left: in \<open>failing_world\<close> every
  vector it runs has an error, in \<open>passing_world\<close> none has.
\<close>

definition hevc_suite :: TestSuite where
  "hevc_suite = \<lparr> ts_name = ''JCT-VC-HEVC_V1'', ts_codec = H265,
       ts_test_vectors = [(''w1'', \<lparr> tv_name = ''w1'', tv_errors = [] \<rparr>)],
       ts_test_vectors_success = 0 \<rparr>"

definition ffmpeg_h264 :: Decoder where
  "ffmpeg_h264 = \<lparr> dec_name = ''FFmpeg-H.264'', dec_codec = H264 \<rparr>"

definition gst_h264 :: Decoder where
  "gst_h264 = \<lparr> dec_name = ''GStreamer-H.264'', dec_codec = H264 \<rparr>"

definition ffmpeg_h265 :: Decoder where
  "ffmpeg_h265 = \<lparr> dec_name = ''FFmpeg-H.265'', dec_codec = H265 \<rparr>"

definition example_run :: "bool \<Rightarrow> TestSuite \<Rightarrow> TestSuiteContext \<Rightarrow> TestSuite option" where
  "example_run failing test_suite ts_context =
     (let kept = (case tsc_test_vectors ts_context of
                    Some (n # ns) \<Rightarrow>
                      filter (\<lambda>kv. lower (fst kv) \<in> set (n # ns)) (ts_test_vectors test_suite)
                  | _ \<Rightarrow> ts_test_vectors test_suite)
      in if kept = [] then None
         else Some (test_suite
           \<lparr> ts_test_vectors :=
               map (\<lambda>kv. (fst kv, (snd kv)\<lparr>tv_errors :=
                             (if failing then [''Checksum mismatch''] else [])\<rparr>)) kept,
             ts_test_vectors_success := (if failing then 0 else length kept) \<rparr>))"

definition failing_world :: world where
  "failing_world =
     \<lparr> walk = (\<lambda>dir. []), from_json_file = (\<lambda>path resources_dir. Inl ''no such file''),
       run = example_run True \<rparr>"

definition passing_world :: world where
  "passing_world =
     \<lparr> walk = (\<lambda>dir. []), from_json_file = (\<lambda>path resources_dir. Inl ''no such file''),
       run = example_run False \<rparr>"

definition ready_fluster :: Fluster where
  "ready_fluster =
     \<lparr> fl_test_suites_dir = ''test_suites'', fl_decoders_dir = ''decoders'',
       fl_resources_dir = ''resources'', fl_results_dir = ''results'', fl_verbose = False,
       fl_test_suites = [good_suite, hevc_suite],
       fl_decoders = [ffmpeg_h264, gst_h264, ffmpeg_h265], fl_loaded = True \<rparr>"

text \<open>A context with no filter and every flag off, and the same with a flag on.\<close>

definition plain_context :: Context where
  "plain_context =
     \<lparr> ctx_jobs = 1, ctx_timeout = 30, ctx_test_suites = PNone, ctx_decoders = PNone,
       ctx_test_vectors = None, ctx_failfast = False, ctx_quiet = False,
       ctx_reference = False, ctx_summary = False, ctx_keep_files = False,
       ctx_test_suite = None \<rparr>"

definition failfast_context :: Context where
  "failfast_context = plain_context\<lparr>ctx_failfast := True\<rparr>"

definition reference_context :: Context where
  "reference_context = plain_context\<lparr>ctx_reference := True\<rparr>"

text \<open>The names of the suite and of the decoder of each call of \<^verbatim>\<open>test_suite.run\<close>.\<close>

definition run_names :: "event list \<Rightarrow> (string \<times> string) list" where
  "run_names tr = map (\<lambda>c. (ts_name (fst c), dec_name (tsc_decoder (snd c)))) (runs tr)"

text \<open>
  Contexts with a filter: vectors that no suite holds, a suite named in another letter
  case, one decoder for reference mode.
\<close>

definition vector_context :: Context where
  "vector_context = plain_context\<lparr>ctx_test_vectors := Some [''NoSuchVector'']\<rparr>"

definition suite_context :: Context where
  "suite_context = plain_context\<lparr>ctx_test_suites := PNames [''jvt-avc_v1'']\<rparr>"

definition missing_suite_context :: Context where
  "missing_suite_context = plain_context\<lparr>ctx_test_suites := PNames [''VP9-Suite'']\<rparr>"

definition one_reference_context :: Context where
  "one_reference_context =
     plain_context\<lparr>ctx_reference := True, ctx_decoders := PNames [''FFMPEG-H.265'']\<rparr>"

text \<open>
  The result sets of two decoders for a suite of three vectors: the first decoder passes
  every vector, the second fails the second vector.
\<close>

definition passed_vector :: "string \<Rightarrow> string \<times> TestVector" where
  "passed_vector nm = (nm, \<lparr> tv_name = nm, tv_errors = [] \<rparr>)"

definition failed_vector :: "string \<Rightarrow> string \<times> TestVector" where
  "failed_vector nm = (nm, \<lparr> tv_name = nm, tv_errors = [''Checksum mismatch''] \<rparr>)"

definition summary_results :: "(Decoder \<times> TestSuite) list" where
  "summary_results =
     [(ffmpeg_h264,
       \<lparr> ts_name = ''JVT-AVC_V1'', ts_codec = H264,
         ts_test_vectors = [passed_vector ''v1'', passed_vector ''v2'', passed_vector ''v3''],
         ts_test_vectors_success = 3 \<rparr>),
      (gst_h264,
       \<lparr> ts_name = ''JVT-AVC_V1'', ts_codec = H264,
         ts_test_vectors = [passed_vector ''v1'', failed_vector ''v2'', passed_vector ''v3''],
         ts_test_vectors_success = 2 \<rparr>)]"

section \<open>Properties\<close>

subsection \<open>The loader in closed form\<close>

lemma file_suites_frame [simp]:
  "file_suites w (self\<lparr>fl_test_suites := xs\<rparr>) root f = file_suites w self root f"
  by (simp add: file_suites_def parse_file_def)

lemma file_events_frame [simp]:
  "file_events w (self\<lparr>fl_test_suites := xs\<rparr>) root f = file_events w self root f"
  by (simp add: file_events_def parse_file_def)

lemma load_file_closed:
  "load_file w root (self, tr) f =
     (self\<lparr>fl_test_suites := fl_test_suites self @ file_suites w self root f\<rparr>,
      tr @ file_events w self root f)"
  by (simp add: load_file_def file_suites_def file_events_def parse_file_def is_definition_def
        error_report_def Let_def split: sum.splits)

lemma load_files_closed:
  "foldl (load_file w root) (self, tr) fs =
     (self\<lparr>fl_test_suites := fl_test_suites self @ concat (map (file_suites w self root) fs)\<rparr>,
      tr @ concat (map (file_events w self root) fs))"
proof (induction fs arbitrary: self tr)
  case Nil
  show ?case by simp
next
  case (Cons f fs)
  show ?case by (simp add: load_file_closed Cons.IH)
qed

lemma load_dir_closed:
  "load_dir w (self, tr) entry =
     (self\<lparr>fl_test_suites := fl_test_suites self @
         concat (map (file_suites w self (fst entry)) (snd entry))\<rparr>,
      tr @ concat (map (file_events w self (fst entry)) (snd entry)))"
  by (cases entry) (simp add: load_dir_def load_files_closed)

lemma load_dirs_closed:
  "foldl (load_dir w) (self, tr) entries =
     (self\<lparr>fl_test_suites := fl_test_suites self @
         concat (map (\<lambda>entry. concat (map (file_suites w self (fst entry)) (snd entry))) entries)\<rparr>,
      tr @ concat (map (\<lambda>entry. concat (map (file_events w self (fst entry)) (snd entry))) entries))"
proof (induction entries arbitrary: self tr)
  case Nil
  show ?case by simp
next
  case (Cons entry entries)
  show ?case by (simp add: load_dir_closed Cons.IH)
qed

lemma concat_scanned:
  "concat (map (\<lambda>entry. concat (map (f (fst entry)) (snd entry))) entries) =
   concat (map (\<lambda>p. f (fst p) (snd p))
      (concat (map (\<lambda>entry. map (\<lambda>x. (fst entry, x)) (snd entry)) entries)))"
  by (induction entries) (simp_all add: comp_def)

lemma load_test_suites_closed:
  "\<not> fl_loaded self \<Longrightarrow>
   load_test_suites w self =
     (self\<lparr>fl_test_suites := fl_test_suites self @
         concat (map (\<lambda>p. file_suites w self (fst p) (snd p)) (scanned_files w self)),
         fl_loaded := True\<rparr>,
      Walk (fl_test_suites_dir self) #
        concat (map (\<lambda>p. file_events w self (fst p) (snd p)) (scanned_files w self)))"
  by (simp add: load_test_suites_def load_dirs_closed scanned_files_def concat_scanned)

lemma concat_map_if:
  "concat (map (\<lambda>x. if P x then g x else []) xs) = concat (map g (filter P xs))"
  by (induction xs) simp_all

lemma file_suites_concat:
  "concat (map (\<lambda>p. file_suites w self (fst p) (snd p)) (scanned_files w self)) =
   loaded_suites w self"
  unfolding loaded_suites_def definition_files_def file_suites_def
  by (rule concat_map_if)

lemma filter_concat_map:
  "filter P (concat (map f xs)) = concat (map (\<lambda>x. filter P (f x)) xs)"
  by (induction xs) simp_all

lemma error_reports_of_file:
  "filter is_error_report (file_events w self root f) =
     (if is_definition f
      then (case parse_file w self root f of Inr test_suite \<Rightarrow> [] | Inl ex \<Rightarrow> [error_report f ex])
      else [])"
  by (simp add: file_events_def is_error_report_def error_report_def split: sum.splits)

lemma parse_calls_of_file:
  "filter is_parse_call (file_events w self root f) =
     (if is_definition f
      then [FromJsonFile (path_join root f) (fl_resources_dir self)]
      else [])"
  by (simp add: file_events_def is_parse_call_def error_report_def split: sum.splits)

lemma concat_map_case_sum:
  "map h (concat (map (\<lambda>p. case r p of Inr t \<Rightarrow> [] | Inl ex \<Rightarrow> [g p ex]) xs)) =
   concat (map (\<lambda>p. case r p of Inr t \<Rightarrow> [] | Inl ex \<Rightarrow> [h (g p ex)]) xs)"
  by (induction xs) (simp_all split: sum.splits)

lemma length_partition_sum:
  "length (concat (map (\<lambda>p. case r p of Inr t \<Rightarrow> [t] | Inl ex \<Rightarrow> []) xs)) +
   length (concat (map (\<lambda>p. case r p of Inr t \<Rightarrow> [] | Inl ex \<Rightarrow> [g p ex]) xs)) = length xs"
  by (induction xs) (simp_all split: sum.splits)

subsection \<open>Loading the catalogue\<close>

text \<open>
  Claim C8. On its first call for an instance the loader visits every suite definition of
  the scan, in order: each definition that parses is appended to the suites of the
  instance, each definition that does not parse is reported by one line naming the file and
  the error, and the scan goes on after it (every definition is handed to the parser, and
  the definitions that parse and the ones that are reported add up to all of them). For a
  directory with one well-formed and one malformed definition this gives one loaded suite
  and one reported error.
\<close>

theorem load_skips_malformed:
  assumes "\<not> fl_loaded self"
  shows "fl_test_suites (fst (load_test_suites w self)) = fl_test_suites self @ loaded_suites w self
       \<and> filter is_error_report (snd (load_test_suites w self)) =
           map (\<lambda>e. error_report (fst e) (snd e)) (parse_errors w self)
       \<and> filter is_parse_call (snd (load_test_suites w self)) =
           map (\<lambda>p. FromJsonFile (path_join (fst p) (snd p)) (fl_resources_dir self))
               (definition_files w self)
       \<and> length (loaded_suites w self) + length (parse_errors w self) =
           length (definition_files w self)"
proof -
  have a: "fl_test_suites (fst (load_test_suites w self)) =
           fl_test_suites self @ loaded_suites w self"
    using assms by (simp add: load_test_suites_closed file_suites_concat)
  have b: "filter is_error_report (snd (load_test_suites w self)) =
           map (\<lambda>e. error_report (fst e) (snd e)) (parse_errors w self)"
    using assms
    by (simp add: load_test_suites_closed filter_concat_map error_reports_of_file
          is_error_report_def parse_errors_def definition_files_def concat_map_if
          concat_map_case_sum cong: sum.case_cong)
  have c: "filter is_parse_call (snd (load_test_suites w self)) =
           map (\<lambda>p. FromJsonFile (path_join (fst p) (snd p)) (fl_resources_dir self))
               (definition_files w self)"
    using assms
    by (simp add: load_test_suites_closed filter_concat_map parse_calls_of_file
          is_parse_call_def definition_files_def concat_map_if map_concat comp_def)
  have d: "length (loaded_suites w self) + length (parse_errors w self) =
           length (definition_files w self)"
    unfolding loaded_suites_def parse_errors_def by (rule length_partition_sum)
  from a b c d show ?thesis by blast
qed

theorem load_skips_malformed_witness:
  "fl_test_suites (fst (load_test_suites catalogue_world fresh_fluster)) = [good_suite]
   \<and> filter is_error_report (snd (load_test_suites catalogue_world fresh_fluster)) =
       [Print ''Error loading test suite bad.json: Expecting value'']
   \<and> filter is_parse_call (snd (load_test_suites catalogue_world fresh_fluster)) =
       [FromJsonFile ''test_suites/good.json'' ''resources'',
        FromJsonFile ''test_suites/bad.json'' ''resources'']"
  using load_skips_malformed [of fresh_fluster catalogue_world]
  by (simp add: catalogue_world_def fresh_fluster_def loaded_suites_def parse_errors_def
        definition_files_def scanned_files_def is_definition_def splitext_def rfind_def
        parse_file_def path_join_def error_report_def)

text \<open>
  Claim C9. The loader is memoized for an instance: after its first call the cache holds
  the instance, a second call leaves the instance as the first call left it and emits no
  event (no scan of the directory, no parse, no line printed), whatever the directory holds
  by then, and so does every later call.
\<close>

theorem load_memoized:
  "fl_loaded (fst (load_test_suites w self))
   \<and> load_test_suites w' (fst (load_test_suites w self)) = (fst (load_test_suites w self), [])
   \<and> ((\<lambda>s. fst (load_test_suites w' s)) ^^ n) (fst (load_test_suites w self)) =
       fst (load_test_suites w self)"
proof -
  have a: "fl_loaded (fst (load_test_suites w self))"
    by (simp add: load_test_suites_def split: prod.splits)
  have b: "\<And>s. fl_loaded s \<Longrightarrow> load_test_suites w' s = (s, [])"
    by (simp add: load_test_suites_def)
  have c: "\<And>s. fl_loaded s \<Longrightarrow> ((\<lambda>s. fst (load_test_suites w' s)) ^^ n) s = s"
    by (induction n) (simp_all add: b)
  from a b c show ?thesis by simp
qed

subsection \<open>The loops in closed form\<close>

lemma runs_simps [simp]:
  "runs [] = []"
  "runs (tr @ tr') = runs tr @ runs tr'"
  "runs (Run s c # tr) = (s, c) # runs tr"
  "runs (Print x # tr) = runs tr"
  "runs (Walk x # tr) = runs tr"
  "runs (FromJsonFile x y # tr) = runs tr"
  "runs (Download t j r k # tr) = runs tr"
  by (simp_all add: runs_def)

lemma vectors_success_iff:
  "vectors_success tvs = (\<not> list_ex (\<lambda>tv. tv_errors tv \<noteq> []) tvs)"
  by (induction tvs) simp_all

lemma ts_context_of_frame [simp]:
  "ts_context_of self (ctx\<lparr>ctx_test_suite := x\<rparr>) = ts_context_of self ctx"
  by (rule ext) (simp add: ts_context_of_def to_test_suite_context_def)

lemma pair_result_frame [simp]:
  "pair_result w self (ctx\<lparr>ctx_test_suite := x\<rparr>) = pair_result w self ctx"
  by (rule ext, rule ext) (simp add: pair_result_def)

lemma pair_fails_frame [simp]:
  "pair_fails w self (ctx\<lparr>ctx_test_suite := x\<rparr>) = pair_fails w self ctx"
  by (rule ext, rule ext) (simp add: pair_fails_def)

lemma list_ex_map:
  "list_ex P (map f xs) = list_ex (\<lambda>x. P (f x)) xs"
  by (induction xs) simp_all

lemma selected_pairs_Cons:
  "selected_pairs (s # ss) decs = map (Pair s) (matching s decs) @ selected_pairs ss decs"
  by (simp add: selected_pairs_def)

lemma results_of_frame [simp]:
  "results_of w self (ctx\<lparr>ctx_test_suite := x\<rparr>) s ds = results_of w self ctx s ds"
  by (simp add: results_of_def)

lemma summaries_defined_frame [simp]:
  "summaries_defined w self (ctx\<lparr>ctx_test_suite := x\<rparr>) suites decs =
   summaries_defined w self ctx suites decs"
  by (simp add: summaries_defined_def)

lemma up_to_first_none:
  "\<not> list_ex P xs \<Longrightarrow> up_to_first P xs = xs"
  by (induction xs) simp_all

lemma up_to_first_append:
  "up_to_first P (xs @ ys) =
     (if list_ex P xs then up_to_first P xs else xs @ up_to_first P ys)"
  by (induction xs) simp_all

lemma up_to_first_map:
  "up_to_first P (map f xs) = map f (up_to_first (\<lambda>x. P (f x)) xs)"
  by (induction xs) simp_all

lemma run_decoders_closed:
  "run_decoders w self ctx s decs (results, error, tr) =
     (ctx_failfast ctx \<and> list_ex (pair_fails w self ctx s) (matching s decs),
      results @ results_of w self ctx s (executed_decoders w self ctx s decs),
      error \<or> (\<not> ctx_failfast ctx \<and> list_ex (pair_fails w self ctx s) (matching s decs)),
      tr @ map (\<lambda>d. Run s (ts_context_of self ctx d)) (executed_decoders w self ctx s decs))"
proof (induction decs arbitrary: results error tr)
  case Nil
  show ?case by (simp add: matching_def executed_decoders_def results_of_def)
next
  case (Cons d decs)
  show ?case
  proof (cases "dec_codec d = ts_codec s")
    case False
    then show ?thesis
      using Cons.IH [of results error tr]
      by (simp add: matching_def executed_decoders_def)
  next
    case True
    show ?thesis
    proof (cases "pair_result w self ctx s d")
      case None
      then have nf: "\<not> pair_fails w self ctx s d" by (simp add: pair_fails_def)
      from None have r: "run w s (to_test_suite_context ctx d (fl_results_dir self)
          (ctx_test_vectors ctx)) = None"
        by (simp add: pair_result_def ts_context_of_def)
      show ?thesis
        using True nf None
        by (simp add: r Cons.IH matching_def executed_decoders_def results_of_def
              ts_context_of_def)
    next
      case (Some res)
      then have r: "run w s (to_test_suite_context ctx d (fl_results_dir self)
          (ctx_test_vectors ctx)) = Some res"
        by (simp add: pair_result_def ts_context_of_def)
      have f: "pair_fails w self ctx s d = has_errors res"
        using Some by (simp add: pair_fails_def)
      have v: "vectors_success (map snd (ts_test_vectors res)) = (\<not> has_errors res)"
        by (simp add: vectors_success_iff has_errors_def)
      show ?thesis
        using True Some
        by (simp add: r f v Cons.IH matching_def executed_decoders_def results_of_def
              ts_context_of_def Let_def)
    qed
  qed
qed

lemma foldl_append_concat:
  "foldl (\<lambda>out x. out @ f x) out xs = out @ concat (map f xs)"
  by (induction xs arbitrary: out) simp_all

lemma summary_cells_closed:
  "list_all (\<lambda>ts. map_of (ts_test_vectors ts) nm \<noteq> None) tss \<Longrightarrow>
   summary_cells nm tss out = Inr (out @ concat (map (\<lambda>ts. mark (vector_passes ts nm)) tss))"
  by (induction tss arbitrary: out) (auto simp: mark_def vector_passes_def)

lemma summary_rows_closed:
  "list_all (\<lambda>tv. list_all (\<lambda>ts. map_of (ts_test_vectors ts) (tv_name tv) \<noteq> None) tss) tvs \<Longrightarrow>
   summary_rows tvs tss out =
     Inr (out @ concat (map (\<lambda>tv. newline @ ''|'' @ tv_name tv @ ''|'' @
            concat (map (\<lambda>ts. mark (vector_passes ts (tv_name tv))) tss)) tvs))"
  by (induction tvs arbitrary: out) (simp_all add: summary_cells_closed)

lemma join_newline:
  "join sep (x # xs) = x @ concat (map (\<lambda>l. sep @ l) xs)"
  by (induction xs arbitrary: x) simp_all

lemma list_all_swap:
  "list_all (\<lambda>x. list_all (\<lambda>y. P x y) ys) xs = list_all (\<lambda>y. list_all (\<lambda>x. P x y) xs) ys"
  by (auto simp: list_all_iff)

lemma summary_output_closed:
  assumes "results \<noteq> []" and "shared_vector_names results"
  shows "summary_output results =
     Inr (header_row results @ newline @ separator_row results @
          concat (map (\<lambda>tv. newline @ vector_row results tv)
                      (map snd (ts_test_vectors (snd (hd results))))) @
          newline @ ''|TOTAL|'' @
          concat (map (\<lambda>res. str_nat (ts_test_vectors_success (snd res)) @ ''/'' @
                         str_nat (length (ts_test_vectors (snd res))) @ ''|'') results))"
proof -
  obtain first rest where r: "results = first # rest"
    using assms(1) by (cases results) auto
  have rows: "list_all (\<lambda>tv. list_all (\<lambda>ts. map_of (ts_test_vectors ts) (tv_name tv) \<noteq> None)
                 (map snd results)) (map snd (ts_test_vectors (snd first)))"
    using assms(2) unfolding shared_vector_names_def r
    by (subst list_all_swap) (simp add: list_all_iff)
  show ?thesis
    unfolding summary_output_def r
    using summary_rows_closed [OF rows]
    by (simp add: r Let_def foldl_append_concat summary_totals_def header_row_def
          separator_row_def vector_row_def comp_def)
qed

lemma generate_summary_closed:
  assumes "results \<noteq> []" and "shared_vector_names results"
  shows "\<exists>out. generate_summary results = (None, [Print (summary_heading results), Print out])
            \<and> summary_output results = Inr out"
proof -
  obtain first rest where r: "results = first # rest"
    using assms(1) by (cases results) auto
  obtain out where o: "summary_output results = Inr out"
    using summary_output_closed [OF assms] by blast
  show ?thesis
    using o by (simp add: generate_summary_def r summary_heading_def Let_def)
qed

lemma runs_generate_summary [simp]:
  "runs (snd (generate_summary results)) = []"
  by (cases results) (simp_all add: generate_summary_def Let_def split: sum.splits)

lemma list_ex_selected_Cons:
  "list_ex (fails_pair w self ctx) (selected_pairs (s # ss) decs) =
   (list_ex (pair_fails w self ctx s) (matching s decs) \<or>
    list_ex (fails_pair w self ctx) (selected_pairs ss decs))"
  by (simp add: selected_pairs_Cons list_ex_map fails_pair_def)

lemma fails_pair_frame [simp]:
  "fails_pair w self (ctx\<lparr>ctx_test_suite := x\<rparr>) = fails_pair w self ctx"
  by (rule ext) (simp add: fails_pair_def)

lemma run_of_frame [simp]:
  "run_of self (ctx\<lparr>ctx_test_suite := x\<rparr>) = run_of self ctx"
  by (rule ext) (simp add: run_of_def)

lemma executed_pairs_frame [simp]:
  "executed_pairs w self (ctx\<lparr>ctx_test_suite := x\<rparr>) suites decs =
   executed_pairs w self ctx suites decs"
  by (simp add: executed_pairs_def)

lemma executed_decoders_frame [simp]:
  "executed_decoders w self (ctx\<lparr>ctx_test_suite := x\<rparr>) s decs =
   executed_decoders w self ctx s decs"
  by (simp add: executed_decoders_def)

lemma executed_pairs_Cons:
  "executed_pairs w self ctx (s # ss) decs =
     map (Pair s) (executed_decoders w self ctx s decs) @
     (if ctx_failfast ctx \<and> list_ex (pair_fails w self ctx s) (matching s decs) then []
      else executed_pairs w self ctx ss decs)"
proof -
  have a: "list_ex (fails_pair w self ctx) (map (Pair s) (matching s decs)) =
           list_ex (pair_fails w self ctx s) (matching s decs)"
    by (simp add: list_ex_map fails_pair_def)
  have b: "up_to_first (fails_pair w self ctx) (map (Pair s) (matching s decs)) =
           map (Pair s) (up_to_first (pair_fails w self ctx s) (matching s decs))"
    by (simp add: up_to_first_map fails_pair_def)
  show ?thesis
    by (simp add: executed_pairs_def executed_decoders_def selected_pairs_Cons
          up_to_first_append a b up_to_first_none)
qed

lemma summaries_defined_Cons:
  "summaries_defined w self ctx (s # ss) decs \<Longrightarrow> summaries_defined w self ctx ss decs"
  "summaries_defined w self ctx (s # ss) decs \<Longrightarrow> ctx_summary ctx \<Longrightarrow>
     shared_vector_names (results_of w self ctx s (matching s decs))"
  by (auto simp: summaries_defined_def)

lemma run_suites_closed:
  assumes "summaries_defined w self ctx suites (objects (ctx_decoders ctx))"
  shows "fst (run_suites w self suites (ctx, error, tr)) =
           (if error \<or> list_ex (fails_pair w self ctx)
                          (selected_pairs suites (objects (ctx_decoders ctx)))
            then SysExit 1 else Returned)
       \<and> runs (snd (snd (run_suites w self suites (ctx, error, tr)))) =
           runs tr @ map (run_of self ctx)
             (executed_pairs w self ctx suites (objects (ctx_decoders ctx)))"
  using assms
proof (induction suites arbitrary: ctx error tr)
  case Nil
  show ?case by (simp add: selected_pairs_def executed_pairs_def)
next
  case (Cons s ss)
  let ?decs = "objects (ctx_decoders ctx)"
  let ?ctx1 = "ctx\<lparr>ctx_test_suite := Some s\<rparr>"
  let ?stop = "ctx_failfast ctx \<and> list_ex (pair_fails w self ctx s) (matching s ?decs)"
  let ?ex = "executed_decoders w self ctx s ?decs"
  let ?res = "results_of w self ctx s ?ex"
  let ?err = "error \<or> (\<not> ctx_failfast ctx \<and> list_ex (pair_fails w self ctx s) (matching s ?decs))"
  let ?tr1 = "tr @ map (\<lambda>d. Run s (ts_context_of self ctx d)) ?ex"
  have inner: "run_decoders w self ?ctx1 s (objects (ctx_decoders ?ctx1)) ([], error, tr) =
                 (?stop, ?res, ?err, ?tr1)"
    by (simp add: run_decoders_closed)
  have runs1: "runs ?tr1 = runs tr @ map (run_of self ctx) (map (Pair s) ?ex)"
    by (induction ?ex) (simp_all add: run_of_def comp_def runs_def)
  have sd: "summaries_defined w self ?ctx1 ss (objects (ctx_decoders ?ctx1))"
    using Cons.prems by (simp add: summaries_defined_Cons(1))
  note IH = Cons.IH [OF sd, simplified]
  show ?case
  proof (cases ?stop)
    case True
    then show ?thesis
      using inner runs1
      by (simp add: list_ex_selected_Cons executed_pairs_Cons)
  next
    case False
    then have full: "?ex = matching s ?decs"
      by (auto simp: executed_decoders_def up_to_first_none)
    show ?thesis
    proof (cases "ctx_summary ctx \<and> ?res \<noteq> []")
      case nosum: False
      have step: "run_suites w self (s # ss) (ctx, error, tr) =
                  run_suites w self ss (?ctx1, ?err, ?tr1)"
        using inner False nosum by (auto simp add: Let_def simp del: run_decoders.simps)
      show ?thesis
        unfolding step using False runs1 IH [of ?err ?tr1]
        by (auto simp: list_ex_selected_Cons executed_pairs_Cons)
    next
      case sum: True
      then have sh: "shared_vector_names ?res"
        using Cons.prems summaries_defined_Cons(2) [of w self ctx s ss ?decs] full by simp
      from sum have ne: "?res \<noteq> []" by simp
      obtain out where g: "generate_summary ?res =
          (None, [Print (summary_heading ?res), Print out])"
        using generate_summary_closed [OF ne sh] by blast
      let ?tr2 = "?tr1 @ [Print (summary_heading ?res), Print out]"
      have step: "run_suites w self (s # ss) (ctx, error, tr) =
                  run_suites w self ss (?ctx1, ?err, ?tr2)"
        using inner False sum g by (auto simp add: Let_def simp del: run_decoders.simps)
      have runs2: "runs ?tr2 = runs ?tr1" by simp
      show ?thesis
        unfolding step using False runs1 runs2 IH [of ?err ?tr2]
        by (auto simp: list_ex_selected_Cons executed_pairs_Cons)
    qed
  qed
qed

subsection \<open>The run and the download\<close>

lemma runs_file_events [simp]: "runs (file_events w self root f) = []"
  by (simp add: file_events_def error_report_def split: sum.splits)

lemma runs_concat_empty:
  "(\<And>x. runs (f x) = []) \<Longrightarrow> runs (concat (map f xs)) = []"
  by (induction xs) simp_all

lemma runs_load [simp]: "runs (snd (load_test_suites w self)) = []"
proof (cases "fl_loaded self")
  case True
  then show ?thesis by (simp add: load_test_suites_def)
next
  case False
  then show ?thesis by (simp add: load_test_suites_closed runs_concat_empty)
qed

lemma load_frame [simp]:
  "fl_decoders (fst (load_test_suites w self)) = fl_decoders self"
  "fl_results_dir (fst (load_test_suites w self)) = fl_results_dir self"
  "fl_resources_dir (fst (load_test_suites w self)) = fl_resources_dir self"
  by (cases "fl_loaded self", simp add: load_test_suites_def,
      simp add: load_test_suites_closed)+

lemma lower_names_caller:
  "caller_param p \<Longrightarrow> lower_names p = Inr (lowered p)"
  by (cases p) (simp_all add: caller_param_def lower_names_def lowered_def)

lemma member_lowered:
  "(lower a \<in> set (map lower ns)) = list_ex (\<lambda>n. lower a = lower n) ns"
  by (auto simp: list_ex_iff)

lemma get_run_param_lowered:
  "caller_param p \<Longrightarrow>
   get_run_param (lowered p) check_list name_of nm =
     (if requested p \<noteq> [] \<and> selection (requested p) check_list name_of = []
      then Inl (NoMatch nm (map lower (requested p)))
      else Inr (selection (requested p) check_list name_of))"
  by (cases p)
     (simp_all add: caller_param_def get_run_param_def lowered_def requested_def selection_def
        Let_def member_lowered del: set_map)

lemma normalize_context_closed:
  assumes "caller_context ctx"
  shows "normalize_context self ctx =
    (let ns = requested (ctx_test_suites ctx);
         ds = requested (ctx_decoders ctx);
         suites = selection ns (fl_test_suites self) ts_name;
         decs = selection ds (fl_decoders self) dec_name;
         ctx3 = ctx\<lparr>ctx_test_suites := lowered (ctx_test_suites ctx),
                    ctx_decoders := lowered (ctx_decoders ctx),
                    ctx_test_vectors := map_option (map lower) (ctx_test_vectors ctx)\<rparr>
     in if ns \<noteq> [] \<and> suites = [] then (Some (NoMatch ''test suite'' (map lower ns)), ctx3)
        else if ds \<noteq> [] \<and> decs = []
        then (Some (NoMatch ''decoders'' (map lower ds)), ctx3\<lparr>ctx_test_suites := PObjs suites\<rparr>)
        else (None, ctx3\<lparr>ctx_test_suites := PObjs suites, ctx_decoders := PObjs decs\<rparr>))"
proof -
  have s: "caller_param (ctx_test_suites ctx)" and d: "caller_param (ctx_decoders ctx)"
    using assms by (simp_all add: caller_context_def)
  have tv: "(case ctx_test_vectors c of
               Some (v # vs) \<Rightarrow> c\<lparr>ctx_test_vectors := Some (map lower (v # vs))\<rparr>
             | _ \<Rightarrow> c) = c\<lparr>ctx_test_vectors := map_option (map lower) (ctx_test_vectors c)\<rparr>"
    for c :: Context
    by (cases c) (simp split: option.splits list.splits)
  show ?thesis
    unfolding normalize_context_def
    by (simp add: lower_names_caller s d tv get_run_param_lowered Let_def)
qed

lemma run_test_suites_resolved:
  assumes "resolves w self ctx"
  shows "run_test_suites w self ctx =
    (if ctx_reference ctx \<and> length (selected_decoders self ctx) \<noteq> 1
     then (Raised (reference_error (selected_decoders self ctx)), loaded w self,
           resolved_context w self ctx, snd (load_test_suites w self))
     else (case run_suites w (loaded w self) (selected_suites w self ctx)
                  (resolved_context w self ctx, False,
                   if ctx_reference ctx
                   then snd (load_test_suites w self) @ [Print ''Reference mode'']
                   else snd (load_test_suites w self)) of
             (out, ctx2, tr2) \<Rightarrow> (out, loaded w self, ctx2, tr2)))"
proof -
  have c: "caller_context ctx" using assms by (simp add: resolves_def)
  have n: "normalize_context (loaded w self) ctx = (None, resolved_context w self ctx)"
    using assms
    by (simp add: normalize_context_closed [OF c] resolves_def selected_suites_def
          selected_decoders_def catalogue_def loaded_def resolved_context_def Let_def)
  have l: "(xs = [] \<or> Suc 0 < length xs) = (length xs \<noteq> Suc 0)" for xs :: "Decoder list"
    by (cases xs) auto
  obtain self1 tr where ld: "load_test_suites w self = (self1, tr)"
    by (cases "load_test_suites w self")
  have s1: "loaded w self = self1" using ld by (simp add: loaded_def)
  have o1: "objects (ctx_decoders (resolved_context w self ctx)) = selected_decoders self ctx"
    and o2: "objects (ctx_test_suites (resolved_context w self ctx)) = selected_suites w self ctx"
    and o3: "ctx_reference (resolved_context w self ctx) = ctx_reference ctx"
    by (simp_all add: resolved_context_def objects_def)
  show ?thesis
    unfolding run_test_suites_def
    using n
    by (simp add: ld s1 o1 o2 o3 l Let_def reference_error_def split: prod.splits)
qed


lemma set_up_to_first: "set (up_to_first P xs) \<subseteq> set xs"
  by (induction xs) auto

lemma set_selected_pairs:
  "set (selected_pairs suites decs) =
     {p. fst p \<in> set suites \<and> snd p \<in> set decs \<and> dec_codec (snd p) = ts_codec (fst p)}"
  by (auto simp: selected_pairs_def matching_def)


lemma resolved_context_fields [simp]:
  "objects (ctx_decoders (resolved_context w self ctx)) = selected_decoders self ctx"
  "objects (ctx_test_suites (resolved_context w self ctx)) = selected_suites w self ctx"
  "ctx_reference (resolved_context w self ctx) = ctx_reference ctx"
  "ctx_failfast (resolved_context w self ctx) = ctx_failfast ctx"
  "ctx_summary (resolved_context w self ctx) = ctx_summary ctx"
  by (simp_all add: resolved_context_def objects_def)

lemma runs_start_trace [simp]: "runs (start_trace w self ctx) = []"
  by (simp add: start_trace_def)

lemma run_projections:
  assumes "configured w self ctx"
  shows "outcome_of (run_test_suites w self ctx) =
           fst (run_suites w (loaded w self) (selected_suites w self ctx)
                  (resolved_context w self ctx, False, start_trace w self ctx))"
    and "context_of (run_test_suites w self ctx) =
           fst (snd (run_suites w (loaded w self) (selected_suites w self ctx)
                  (resolved_context w self ctx, False, start_trace w self ctx)))"
    and "trace_of (run_test_suites w self ctx) =
           snd (snd (run_suites w (loaded w self) (selected_suites w self ctx)
                  (resolved_context w self ctx, False, start_trace w self ctx)))"
proof -
  have r: "resolves w self ctx" and k: "\<not> (ctx_reference ctx \<and> length (selected_decoders self ctx) \<noteq> 1)"
    using assms by (auto simp: configured_def reference_ok_def)
  show "outcome_of (run_test_suites w self ctx) =
           fst (run_suites w (loaded w self) (selected_suites w self ctx)
                  (resolved_context w self ctx, False, start_trace w self ctx))"
    unfolding run_test_suites_resolved [OF r] if_not_P [OF k]
    by (simp add: outcome_of_def start_trace_def case_prod_beta)
  show "context_of (run_test_suites w self ctx) =
           fst (snd (run_suites w (loaded w self) (selected_suites w self ctx)
                  (resolved_context w self ctx, False, start_trace w self ctx)))"
    unfolding run_test_suites_resolved [OF r] if_not_P [OF k]
    by (simp add: context_of_def start_trace_def case_prod_beta)
  show "trace_of (run_test_suites w self ctx) =
           snd (snd (run_suites w (loaded w self) (selected_suites w self ctx)
                  (resolved_context w self ctx, False, start_trace w self ctx)))"
    unfolding run_test_suites_resolved [OF r] if_not_P [OF k]
    by (simp add: trace_of_def start_trace_def case_prod_beta)
qed

lemma run_closed:
  assumes "configured w self ctx" and "run_summaries_defined w self ctx"
  shows "outcome_of (run_test_suites w self ctx) =
           (if list_ex (run_fails w self ctx) (run_pairs w self ctx) then SysExit 1 else Returned)"
    and "runs (trace_of (run_test_suites w self ctx)) =
           map (run_call w self ctx)
             (executed_pairs w (loaded w self) (resolved_context w self ctx)
                (selected_suites w self ctx) (selected_decoders self ctx))"
proof -
  have sd: "summaries_defined w (loaded w self) (resolved_context w self ctx)
              (selected_suites w self ctx)
              (objects (ctx_decoders (resolved_context w self ctx)))"
    using assms(2) by (simp add: run_summaries_defined_def)
  note c = run_suites_closed [OF sd, of False "start_trace w self ctx", simplified]
  have f: "fails_pair w (loaded w self) (resolved_context w self ctx) = run_fails w self ctx"
    by (rule ext) (simp add: run_fails_def)
  have r: "run_of (loaded w self) (resolved_context w self ctx) = run_call w self ctx"
    by (rule ext) (simp add: run_call_def)
  show "outcome_of (run_test_suites w self ctx) =
           (if list_ex (run_fails w self ctx) (run_pairs w self ctx) then SysExit 1 else Returned)"
    using c unfolding run_projections [OF assms(1)]
    by (simp add: f run_pairs_def)
  show "runs (trace_of (run_test_suites w self ctx)) =
           map (run_call w self ctx)
             (executed_pairs w (loaded w self) (resolved_context w self ctx)
                (selected_suites w self ctx) (selected_decoders self ctx))"
    using c unfolding run_projections [OF assms(1)]
    by (simp add: r)
qed

lemma run_executed_cases:
  "run_executed w self ctx =
     (if ctx_failfast ctx then up_to_first (run_fails w self ctx) (run_pairs w self ctx)
      else run_pairs w self ctx)"
proof -
  have f: "fails_pair w (loaded w self) (resolved_context w self ctx) = run_fails w self ctx"
    by (rule ext) (simp add: run_fails_def)
  show ?thesis by (simp add: run_executed_def executed_pairs_def f run_pairs_def)
qed


text \<open>
  Claim C2. In a run whose filters resolve and that asks for reference mode: when the
  number of selected decoders is not one (none, or two and more), the call raises the
  error whose message lists the names of all selected decoders, and no run of a suite has
  started; when exactly one decoder is selected, no such error is raised and the call goes
  on to the loops over the resolved selection, after printing that it is in reference mode.
\<close>

theorem reference_needs_one_decoder:
  assumes "resolves w self ctx" and "ctx_reference ctx"
  shows "(length (selected_decoders self ctx) \<noteq> 1 \<longrightarrow>
            outcome_of (run_test_suites w self ctx) =
              Raised (reference_error (selected_decoders self ctx))
          \<and> runs (trace_of (run_test_suites w self ctx)) = [])
       \<and> (length (selected_decoders self ctx) = 1 \<longrightarrow>
            outcome_of (run_test_suites w self ctx) =
              fst (run_suites w (loaded w self) (selected_suites w self ctx)
                     (resolved_context w self ctx, False,
                      snd (load_test_suites w self) @ [Print ''Reference mode'']))
          \<and> trace_of (run_test_suites w self ctx) =
              snd (snd (run_suites w (loaded w self) (selected_suites w self ctx)
                     (resolved_context w self ctx, False,
                      snd (load_test_suites w self) @ [Print ''Reference mode'']))))"
  using assms
  by (simp add: run_test_suites_resolved outcome_of_def trace_of_def case_prod_beta)


text \<open>
  Claim C4, as amended. In a run with \<^verbatim>\<open>failfast\<close> not set that passes its configuration
  (every filter of suites or decoders that is not empty selects an entry, and reference
  mode, when asked for, has exactly one selected decoder) and whose summaries, when asked
  for, can be rendered (every vector of the first result set of a suite is a key of each
  result set of that suite), every selected pair with equal codecs is run, in the order of
  the loops, and the process exits with status 1 if and only if the run of some pair holds
  a vector with errors; otherwise the call returns.
\<close>

theorem without_failfast_all_pairs_run:
  assumes "configured w self ctx" and "run_summaries_defined w self ctx"
    and "\<not> ctx_failfast ctx"
  shows "runs (trace_of (run_test_suites w self ctx)) =
           map (run_call w self ctx) (run_pairs w self ctx)
       \<and> outcome_of (run_test_suites w self ctx) =
           (if list_ex (run_fails w self ctx) (run_pairs w self ctx)
            then SysExit 1 else Returned)"
  using run_closed [OF assms(1,2)] assms(3)
  by (simp add: run_executed_def [symmetric] run_executed_cases)

text \<open>
  Claim C5, as amended. A decoder whose codec is not the suite's adds nothing: the inner
  loop gives the same results, error flag and trace with such decoders removed. In a run
  that passes its configuration (every filter of suites or decoders that is not empty
  selects an entry, and reference mode, when asked for, has exactly one selected decoder)
  and whose summaries, when asked for, can be rendered (every vector of the first result
  set of a suite is a key of each result set of that suite), the pairs that are run are the
  executed pairs; each of them is a selected suite with a selected decoder of equal codec;
  and unless the run is cut short by \<^verbatim>\<open>failfast\<close> (the flag is set and some pair fails), a
  selected pair is run if and only if its codecs are equal.
\<close>

theorem codec_gate:
  assumes "configured w self ctx" and "run_summaries_defined w self ctx"
  shows "run_decoders w fl c s decs st = run_decoders w fl c s (matching s decs) st
       \<and> runs (trace_of (run_test_suites w self ctx)) =
           map (run_call w self ctx) (run_executed w self ctx)
       \<and> list_all (\<lambda>p. fst p \<in> set (selected_suites w self ctx) \<and>
                       snd p \<in> set (selected_decoders self ctx) \<and>
                       dec_codec (snd p) = ts_codec (fst p))
           (run_executed w self ctx)
       \<and> (\<not> (ctx_failfast ctx \<and> list_ex (run_fails w self ctx) (run_pairs w self ctx)) \<longrightarrow>
            set (run_executed w self ctx) =
              {p. fst p \<in> set (selected_suites w self ctx) \<and>
                  snd p \<in> set (selected_decoders self ctx) \<and>
                  dec_codec (snd p) = ts_codec (fst p)})"
proof -
  obtain results error tr where st: "st = (results, error, tr)" by (cases st) auto
  have m: "matching s (matching s decs) = matching s decs" by (simp add: matching_def)
  have a: "run_decoders w fl c s decs st = run_decoders w fl c s (matching s decs) st"
    unfolding st by (simp add: run_decoders_closed executed_decoders_def m)
  have b: "runs (trace_of (run_test_suites w self ctx)) =
           map (run_call w self ctx) (run_executed w self ctx)"
    using run_closed(2) [OF assms] by (simp add: run_executed_def)
  have sub: "set (run_executed w self ctx) \<subseteq> set (run_pairs w self ctx)"
    using set_up_to_first [of "run_fails w self ctx" "run_pairs w self ctx"]
    by (simp add: run_executed_cases)
  have c: "list_all (\<lambda>p. fst p \<in> set (selected_suites w self ctx) \<and>
                       snd p \<in> set (selected_decoders self ctx) \<and>
                       dec_codec (snd p) = ts_codec (fst p))
           (run_executed w self ctx)"
    using sub unfolding list_all_iff run_pairs_def set_selected_pairs by blast
  have d: "\<not> (ctx_failfast ctx \<and> list_ex (run_fails w self ctx) (run_pairs w self ctx)) \<longrightarrow>
            set (run_executed w self ctx) =
              {p. fst p \<in> set (selected_suites w self ctx) \<and>
                  snd p \<in> set (selected_decoders self ctx) \<and>
                  dec_codec (snd p) = ts_codec (fst p)}"
    by (auto simp: run_executed_cases up_to_first_none run_pairs_def set_selected_pairs)
  from a b c d show ?thesis by blast
qed

lemmas context_defs = plain_context_def failfast_context_def reference_context_def

lemmas suite_defs = good_suite_def hevc_suite_def ffmpeg_h264_def gst_h264_def ffmpeg_h265_def

lemmas resolve_defs = configured_def resolves_def reference_ok_def caller_context_def
  caller_param_def requested_def selected_suites_def selected_decoders_def selection_def
  catalogue_def load_test_suites_def loaded_def

lemmas pair_defs = run_fails_def fails_pair_def pair_fails_def pair_result_def has_errors_def
  ts_context_of_def to_test_suite_context_def resolved_context_def example_run_def
  run_call_def run_of_def

lemma ready_selection:
  "ctx_test_suites ctx = PNone \<Longrightarrow> selected_suites w ready_fluster ctx = [good_suite, hevc_suite]"
  "ctx_decoders ctx = PNone \<Longrightarrow>
     selected_decoders ready_fluster ctx = [ffmpeg_h264, gst_h264, ffmpeg_h265]"
  by (simp_all add: resolve_defs ready_fluster_def)

lemma ready_pairs:
  "ctx_test_suites ctx = PNone \<Longrightarrow> ctx_decoders ctx = PNone \<Longrightarrow>
   run_pairs w ready_fluster ctx =
     [(good_suite, ffmpeg_h264), (good_suite, gst_h264), (hevc_suite, ffmpeg_h265)]"
  by (simp add: run_pairs_def ready_selection selected_pairs_def matching_def suite_defs)

lemma ready_configured:
  "ctx_test_suites ctx = PNone \<Longrightarrow> ctx_decoders ctx = PNone \<Longrightarrow> \<not> ctx_reference ctx \<Longrightarrow>
   configured w ready_fluster ctx"
  by (simp add: resolve_defs ready_fluster_def)

lemma no_summaries:
  "\<not> ctx_summary ctx \<Longrightarrow> run_summaries_defined w self ctx"
  by (simp add: run_summaries_defined_def summaries_defined_def resolved_context_def)

lemma failing_world_fails:
  "ctx_test_vectors ctx = None \<Longrightarrow> ts_test_vectors (fst p) \<noteq> [] \<Longrightarrow>
   run_fails failing_world self ctx p"
  by (cases "ts_test_vectors (fst p)") (simp_all add: pair_defs failing_world_def)

lemma passing_world_passes:
  "\<not> run_fails passing_world self ctx p"
  by (simp add: pair_defs passing_world_def Let_def list_ex_iff split: option.splits list.splits)


theorem without_failfast_all_pairs_run_witness:
  "configured failing_world ready_fluster plain_context
   \<and> run_summaries_defined failing_world ready_fluster plain_context
   \<and> \<not> ctx_failfast plain_context
   \<and> run_names (trace_of (run_test_suites failing_world ready_fluster plain_context)) =
        [(''JVT-AVC_V1'', ''FFmpeg-H.264''), (''JVT-AVC_V1'', ''GStreamer-H.264''),
         (''JCT-VC-HEVC_V1'', ''FFmpeg-H.265'')]
   \<and> outcome_of (run_test_suites failing_world ready_fluster plain_context) = SysExit 1
   \<and> configured passing_world ready_fluster plain_context
   \<and> run_summaries_defined passing_world ready_fluster plain_context
   \<and> run_names (trace_of (run_test_suites passing_world ready_fluster plain_context)) =
        [(''JVT-AVC_V1'', ''FFmpeg-H.264''), (''JVT-AVC_V1'', ''GStreamer-H.264''),
         (''JCT-VC-HEVC_V1'', ''FFmpeg-H.265'')]
   \<and> outcome_of (run_test_suites passing_world ready_fluster plain_context) = Returned"
proof -
  let ?c = plain_context
  have h1: "configured w ready_fluster ?c" for w
    by (rule ready_configured) (simp_all add: context_defs)
  have h2: "run_summaries_defined w ready_fluster ?c" for w
    by (rule no_summaries) (simp add: context_defs)
  have h3: "\<not> ctx_failfast ?c" by (simp add: context_defs)
  have p: "run_pairs w ready_fluster ?c =
        [(good_suite, ffmpeg_h264), (good_suite, gst_h264), (hevc_suite, ffmpeg_h265)]" for w
    by (rule ready_pairs) (simp_all add: context_defs)
  have f: "run_fails failing_world ready_fluster ?c (good_suite, ffmpeg_h264)"
    by (rule failing_world_fails) (simp_all add: context_defs suite_defs)
  have a: "run_names (trace_of (run_test_suites failing_world ready_fluster ?c)) =
        [(''JVT-AVC_V1'', ''FFmpeg-H.264''), (''JVT-AVC_V1'', ''GStreamer-H.264''),
         (''JCT-VC-HEVC_V1'', ''FFmpeg-H.265'')]
      \<and> outcome_of (run_test_suites failing_world ready_fluster ?c) = SysExit 1"
    using without_failfast_all_pairs_run [OF h1 h2 h3, of failing_world] f
    by (simp add: p run_names_def run_call_def run_of_def ts_context_of_def
          to_test_suite_context_def suite_defs)
  have b: "run_names (trace_of (run_test_suites passing_world ready_fluster ?c)) =
        [(''JVT-AVC_V1'', ''FFmpeg-H.264''), (''JVT-AVC_V1'', ''GStreamer-H.264''),
         (''JCT-VC-HEVC_V1'', ''FFmpeg-H.265'')]
      \<and> outcome_of (run_test_suites passing_world ready_fluster ?c) = Returned"
    using without_failfast_all_pairs_run [OF h1 h2 h3, of passing_world]
    by (simp add: p passing_world_passes run_names_def run_call_def run_of_def ts_context_of_def
          to_test_suite_context_def suite_defs)
  show ?thesis using a b h1 h2 h3 by simp
qed

lemma normalize_frame [simp]:
  "ctx_jobs (snd (normalize_context self ctx)) = ctx_jobs ctx"
  "ctx_timeout (snd (normalize_context self ctx)) = ctx_timeout ctx"
  "ctx_failfast (snd (normalize_context self ctx)) = ctx_failfast ctx"
  "ctx_quiet (snd (normalize_context self ctx)) = ctx_quiet ctx"
  "ctx_reference (snd (normalize_context self ctx)) = ctx_reference ctx"
  "ctx_summary (snd (normalize_context self ctx)) = ctx_summary ctx"
  "ctx_keep_files (snd (normalize_context self ctx)) = ctx_keep_files ctx"
  "ctx_test_suite (snd (normalize_context self ctx)) = ctx_test_suite ctx"
  by (simp_all add: normalize_context_def Let_def split: sum.splits option.splits list.splits)

lemma run_suites_context:
  "(fst (snd (run_suites w self suites (ctx, error, tr))))\<lparr>ctx_test_suite := None\<rparr> =
   ctx\<lparr>ctx_test_suite := None\<rparr>"
proof (induction suites arbitrary: ctx error tr)
  case Nil
  show ?case by simp
next
  case (Cons s ss)
  let ?ctx1 = "ctx\<lparr>ctx_test_suite := Some s\<rparr>"
  obtain stop results error1 tr1 where
    inner: "run_decoders w self ?ctx1 s (objects (ctx_decoders ?ctx1)) ([], error, tr) =
              (stop, results, error1, tr1)"
    by (metis prod_cases4)
  obtain e out where g: "generate_summary results = (e, out)" by (cases "generate_summary results")
  have ih: "(fst (snd (run_suites w self ss (?ctx1, err, t))))\<lparr>ctx_test_suite := None\<rparr> =
            ctx\<lparr>ctx_test_suite := None\<rparr>" for err t
    using Cons.IH [of ?ctx1 err t] by simp
  show ?case
  proof (cases stop)
    case True
    then show ?thesis using inner by (simp del: run_decoders.simps)
  next
    case False
    show ?thesis
    proof (cases "ctx_summary ctx \<and> results \<noteq> []")
      case nosum: False
      then show ?thesis
        using inner False ih [of error1 tr1] by (auto simp add: Let_def simp del: run_decoders.simps)
    next
      case True
      then show ?thesis
        using inner False g ih [of error1 "tr1 @ out"]
        by (cases e) (auto simp add: Let_def simp del: run_decoders.simps)
    qed
  qed
qed

lemma run_suites_returned:
  "fst (run_suites w self suites (ctx, error, tr)) = Returned \<Longrightarrow>
   ctx_test_suite (fst (snd (run_suites w self suites (ctx, error, tr)))) =
     (if suites = [] then ctx_test_suite ctx else Some (last suites))"
proof (induction suites arbitrary: ctx error tr)
  case Nil
  then show ?case by (simp split: if_splits)
next
  case (Cons s ss)
  let ?ctx1 = "ctx\<lparr>ctx_test_suite := Some s\<rparr>"
  obtain stop results error1 tr1 where
    inner: "run_decoders w self ?ctx1 s (objects (ctx_decoders ?ctx1)) ([], error, tr) =
              (stop, results, error1, tr1)"
    by (metis prod_cases4)
  obtain e out where g: "generate_summary results = (e, out)" by (cases "generate_summary results")
  show ?case
    using Cons.prems inner g Cons.IH [of ?ctx1 error1 tr1] Cons.IH [of ?ctx1 error1 "tr1 @ out"]
    by (cases stop; cases e)
       (auto simp add: Let_def simp del: run_decoders.simps split: if_splits)
qed

lemma run_test_suites_frame:
  "(context_of (run_test_suites w self ctx))\<lparr>ctx_test_suite := None\<rparr> =
   (snd (normalize_context (loaded w self) ctx))\<lparr>ctx_test_suite := None\<rparr>"
proof -
  obtain self1 tr where ld: "load_test_suites w self = (self1, tr)"
    by (cases "load_test_suites w self")
  have l: "loaded w self = self1" using ld by (simp add: loaded_def)
  obtain e ctx1 where n: "normalize_context self1 ctx = (e, ctx1)"
    by (cases "normalize_context self1 ctx")
  show ?thesis
  proof (cases e)
    case (Some ex)
    then show ?thesis
      by (simp add: run_test_suites_def context_of_def ld l n)
  next
    case None
    show ?thesis
    proof (cases "ctx_reference ctx1 \<and>
        (objects (ctx_decoders ctx1) = [] \<or> length (objects (ctx_decoders ctx1)) > 1)")
      case True
      then show ?thesis
        using n None by (simp add: run_test_suites_def context_of_def ld l Let_def)
    next
      case False
      then show ?thesis
        using n None run_suites_context [of w self1 "objects (ctx_test_suites ctx1)" ctx1 False]
        by (simp add: run_test_suites_def context_of_def ld l Let_def case_prod_beta)
    qed
  qed
qed

lemma context_fields_frame:
  assumes "c'\<lparr>ctx_test_suite := None\<rparr> = c\<lparr>ctx_test_suite := None\<rparr>"
  shows "ctx_jobs c' = ctx_jobs c \<and> ctx_timeout c' = ctx_timeout c \<and>
         ctx_test_suites c' = ctx_test_suites c \<and> ctx_decoders c' = ctx_decoders c \<and>
         ctx_test_vectors c' = ctx_test_vectors c \<and> ctx_failfast c' = ctx_failfast c \<and>
         ctx_quiet c' = ctx_quiet c \<and> ctx_reference c' = ctx_reference c \<and>
         ctx_summary c' = ctx_summary c \<and> ctx_keep_files c' = ctx_keep_files c"
  using assms by (cases c; cases c') simp

lemma unresolved_raises:
  assumes "caller_context ctx" and "\<not> resolves w self ctx"
  shows "outcome_of (run_test_suites w self ctx) =
     (if requested (ctx_test_suites ctx) \<noteq> [] \<and> selected_suites w self ctx = []
      then Raised (NoMatch ''test suite'' (map lower (requested (ctx_test_suites ctx))))
      else Raised (NoMatch ''decoders'' (map lower (requested (ctx_decoders ctx)))))"
    and "trace_of (run_test_suites w self ctx) = snd (load_test_suites w self)"
proof -
  obtain self1 tr where ld: "load_test_suites w self = (self1, tr)"
    by (cases "load_test_suites w self")
  have s1: "fl_test_suites self1 = catalogue w self" "fl_decoders self1 = fl_decoders self"
    using ld load_frame(1) [of w self] by (simp_all add: catalogue_def)
  show "outcome_of (run_test_suites w self ctx) =
     (if requested (ctx_test_suites ctx) \<noteq> [] \<and> selected_suites w self ctx = []
      then Raised (NoMatch ''test suite'' (map lower (requested (ctx_test_suites ctx))))
      else Raised (NoMatch ''decoders'' (map lower (requested (ctx_decoders ctx)))))"
    using assms unfolding run_test_suites_def outcome_of_def ld
    by (auto simp: normalize_context_closed s1 resolves_def selected_suites_def
          selected_decoders_def Let_def)
  show "trace_of (run_test_suites w self ctx) = snd (load_test_suites w self)"
    using assms unfolding run_test_suites_def trace_of_def ld
    by (auto simp: normalize_context_closed s1 resolves_def selected_suites_def
          selected_decoders_def Let_def)
qed

lemmas filter_context_defs = vector_context_def suite_context_def missing_suite_context_def
  one_reference_context_def

lemma downloads_simps [simp]:
  "downloads [] = []"
  "downloads (tr @ tr') = downloads tr @ downloads tr'"
  "downloads (Download t j r k # tr) = t # downloads tr"
  "downloads (Print x # tr) = downloads tr"
  "downloads (Walk x # tr) = downloads tr"
  "downloads (FromJsonFile x y # tr) = downloads tr"
  "downloads (Run s c # tr) = downloads tr"
  by (simp_all add: downloads_def)

lemma downloads_file_events [simp]: "downloads (file_events w self root f) = []"
  by (simp add: file_events_def error_report_def split: sum.splits)

lemma downloads_concat_empty:
  "(\<And>x. downloads (f x) = []) \<Longrightarrow> downloads (concat (map f xs)) = []"
  by (induction xs) simp_all

lemma downloads_load [simp]: "downloads (snd (load_test_suites w self)) = []"
proof (cases "fl_loaded self")
  case True
  then show ?thesis by (simp add: load_test_suites_def)
next
  case False
  then show ?thesis by (simp add: load_test_suites_closed downloads_concat_empty)
qed

lemma downloads_map [simp]: "downloads (map (\<lambda>t. Download t j r k) ts) = ts"
  by (induction ts) simp_all

lemma download_closed:
  "download_test_suites w self (Some names) jobs keep_file =
     (Returned, loaded w self,
      snd (load_test_suites w self) @
      map (\<lambda>t. Download t jobs (fl_resources_dir self) keep_file)
        (if names = [] then catalogue w self
         else filter (\<lambda>t. list_ex (\<lambda>n. ts_name t = n) names) (catalogue w self)))"
  by (cases names)
     (simp_all add: download_test_suites_def loaded_def catalogue_def case_prod_beta
        list_ex_iff)

lemma returned_context:
  assumes "caller_context ctx" and "outcome_of (run_test_suites w self ctx) = Returned"
  shows "context_of (run_test_suites w self ctx) =
           (resolved_context w self ctx)\<lparr>ctx_test_suite :=
              (if selected_suites w self ctx = [] then ctx_test_suite ctx
               else Some (last (selected_suites w self ctx)))\<rparr>"
proof -
  have r: "resolves w self ctx"
  proof (rule ccontr)
    assume n: "\<not> resolves w self ctx"
    show False
      using unresolved_raises(1) [OF assms(1) n] assms(2) by (simp split: if_splits)
  qed
  have k: "reference_ok self ctx"
    using assms(2) run_test_suites_resolved [OF r]
    by (auto simp: reference_ok_def outcome_of_def split: if_splits)
  have c: "configured w self ctx" using r k by (simp add: configured_def)
  let ?R = "run_suites w (loaded w self) (selected_suites w self ctx)
              (resolved_context w self ctx, False, start_trace w self ctx)"
  have o: "fst ?R = Returned" using assms(2) run_projections(1) [OF c] by simp
  have t: "ctx_test_suite (fst (snd ?R)) =
           (if selected_suites w self ctx = [] then ctx_test_suite ctx
            else Some (last (selected_suites w self ctx)))"
    using run_suites_returned [OF o] by (simp add: resolved_context_def)
  have f: "(fst (snd ?R))\<lparr>ctx_test_suite := None\<rparr> =
           (resolved_context w self ctx)\<lparr>ctx_test_suite := None\<rparr>"
    by (rule run_suites_context)
  have "fst (snd ?R) = (resolved_context w self ctx)\<lparr>ctx_test_suite := ctx_test_suite (fst (snd ?R))\<rparr>"
    using f by (cases "fst (snd ?R)"; cases "resolved_context w self ctx") simp
  then show ?thesis
    unfolding run_projections(2) [OF c] t .
qed

text \<open>
  Claim C7, as amended. However the call ends, the attributes \<^verbatim>\<open>jobs\<close>, \<^verbatim>\<open>timeout\<close>,
  \<^verbatim>\<open>failfast\<close>, \<^verbatim>\<open>quiet\<close>, \<^verbatim>\<open>reference\<close>, \<^verbatim>\<open>summary\<close> and \<^verbatim>\<open>keep_files\<close> of the
  context hold the values they held on entry. When the call returns, \<^verbatim>\<open>test_suites\<close> and
  \<^verbatim>\<open>decoders\<close> hold the resolved selections, \<^verbatim>\<open>test_vectors\<close> holds its names in lower
  case, and the loop has bound the attribute \<^verbatim>\<open>test_suite\<close> to the last selected suite.
\<close>

theorem context_after_run:
  "ctx_jobs (context_of (run_test_suites w self ctx)) = ctx_jobs ctx
   \<and> ctx_timeout (context_of (run_test_suites w self ctx)) = ctx_timeout ctx
   \<and> ctx_failfast (context_of (run_test_suites w self ctx)) = ctx_failfast ctx
   \<and> ctx_quiet (context_of (run_test_suites w self ctx)) = ctx_quiet ctx
   \<and> ctx_reference (context_of (run_test_suites w self ctx)) = ctx_reference ctx
   \<and> ctx_summary (context_of (run_test_suites w self ctx)) = ctx_summary ctx
   \<and> ctx_keep_files (context_of (run_test_suites w self ctx)) = ctx_keep_files ctx
   \<and> (caller_context ctx \<and> outcome_of (run_test_suites w self ctx) = Returned \<longrightarrow>
        ctx_test_suites (context_of (run_test_suites w self ctx)) =
          PObjs (selected_suites w self ctx)
      \<and> ctx_decoders (context_of (run_test_suites w self ctx)) =
          PObjs (selected_decoders self ctx)
      \<and> ctx_test_vectors (context_of (run_test_suites w self ctx)) =
          map_option (map lower) (ctx_test_vectors ctx)
      \<and> ctx_test_suite (context_of (run_test_suites w self ctx)) =
          (if selected_suites w self ctx = [] then ctx_test_suite ctx
           else Some (last (selected_suites w self ctx))))"
proof -
  have a: "ctx_jobs (context_of (run_test_suites w self ctx)) = ctx_jobs ctx
   \<and> ctx_timeout (context_of (run_test_suites w self ctx)) = ctx_timeout ctx
   \<and> ctx_failfast (context_of (run_test_suites w self ctx)) = ctx_failfast ctx
   \<and> ctx_quiet (context_of (run_test_suites w self ctx)) = ctx_quiet ctx
   \<and> ctx_reference (context_of (run_test_suites w self ctx)) = ctx_reference ctx
   \<and> ctx_summary (context_of (run_test_suites w self ctx)) = ctx_summary ctx
   \<and> ctx_keep_files (context_of (run_test_suites w self ctx)) = ctx_keep_files ctx"
    using context_fields_frame [OF run_test_suites_frame, of w self ctx] by simp
  have b: "caller_context ctx \<and> outcome_of (run_test_suites w self ctx) = Returned \<longrightarrow>
        ctx_test_suites (context_of (run_test_suites w self ctx)) =
          PObjs (selected_suites w self ctx)
      \<and> ctx_decoders (context_of (run_test_suites w self ctx)) =
          PObjs (selected_decoders self ctx)
      \<and> ctx_test_vectors (context_of (run_test_suites w self ctx)) =
          map_option (map lower) (ctx_test_vectors ctx)
      \<and> ctx_test_suite (context_of (run_test_suites w self ctx)) =
          (if selected_suites w self ctx = [] then ctx_test_suite ctx
           else Some (last (selected_suites w self ctx)))"
    using returned_context [of ctx w self] by (simp add: resolved_context_def)
  from a b show ?thesis by blast
qed

text \<open>
  Claim C1, as amended. For a context as the caller builds it: a filter of suites that
  matches no suite of the catalogue, by equality of names letter case apart, makes the run
  raise the error naming the kind and the filter in lower case, before any run of a suite;
  so does, when the suites resolve, a filter of decoders that matches no decoder of the
  registry; when the filters resolve, \<^verbatim>\<open>_normalize_context\<close> leaves the resolved context;
  with no filter everything is selected. The filter of test vectors is never checked: what
  the resolver raises does not depend on it.
\<close>

theorem unmatched_filter_fails:
  assumes "caller_context ctx"
  shows "(requested (ctx_test_suites ctx) \<noteq> [] \<and> selected_suites w self ctx = [] \<longrightarrow>
            outcome_of (run_test_suites w self ctx) =
              Raised (NoMatch ''test suite'' (map lower (requested (ctx_test_suites ctx))))
          \<and> runs (trace_of (run_test_suites w self ctx)) = [])
       \<and> (\<not> (requested (ctx_test_suites ctx) \<noteq> [] \<and> selected_suites w self ctx = []) \<and>
          requested (ctx_decoders ctx) \<noteq> [] \<and> selected_decoders self ctx = [] \<longrightarrow>
            outcome_of (run_test_suites w self ctx) =
              Raised (NoMatch ''decoders'' (map lower (requested (ctx_decoders ctx))))
          \<and> runs (trace_of (run_test_suites w self ctx)) = [])
       \<and> (resolves w self ctx \<longrightarrow>
            normalize_context (loaded w self) ctx = (None, resolved_context w self ctx))
       \<and> (requested (ctx_test_suites ctx) = [] \<longrightarrow> selected_suites w self ctx = catalogue w self)
       \<and> (requested (ctx_decoders ctx) = [] \<longrightarrow> selected_decoders self ctx = fl_decoders self)
       \<and> fst (normalize_context (loaded w self) (ctx\<lparr>ctx_test_vectors := tvs\<rparr>)) =
           fst (normalize_context (loaded w self) ctx)"
proof -
  have a: "requested (ctx_test_suites ctx) \<noteq> [] \<and> selected_suites w self ctx = [] \<longrightarrow>
            outcome_of (run_test_suites w self ctx) =
              Raised (NoMatch ''test suite'' (map lower (requested (ctx_test_suites ctx))))
          \<and> runs (trace_of (run_test_suites w self ctx)) = []"
    using unresolved_raises [OF assms, of w self] by (auto simp: resolves_def)
  have b: "\<not> (requested (ctx_test_suites ctx) \<noteq> [] \<and> selected_suites w self ctx = []) \<and>
          requested (ctx_decoders ctx) \<noteq> [] \<and> selected_decoders self ctx = [] \<longrightarrow>
            outcome_of (run_test_suites w self ctx) =
              Raised (NoMatch ''decoders'' (map lower (requested (ctx_decoders ctx))))
          \<and> runs (trace_of (run_test_suites w self ctx)) = []"
    using unresolved_raises [OF assms, of w self] by (auto simp: resolves_def)
  have c: "resolves w self ctx \<longrightarrow>
            normalize_context (loaded w self) ctx = (None, resolved_context w self ctx)"
    by (auto simp: normalize_context_closed [OF assms] resolves_def selected_suites_def
          selected_decoders_def catalogue_def loaded_def resolved_context_def Let_def)
  have d: "requested (ctx_test_suites ctx) = [] \<longrightarrow> selected_suites w self ctx = catalogue w self"
    "requested (ctx_decoders ctx) = [] \<longrightarrow> selected_decoders self ctx = fl_decoders self"
    by (simp_all add: selected_suites_def selected_decoders_def selection_def)
  have cc: "caller_context (ctx\<lparr>ctx_test_vectors := tvs\<rparr>)"
    using assms by (simp add: caller_context_def)
  have e: "fst (normalize_context (loaded w self) (ctx\<lparr>ctx_test_vectors := tvs\<rparr>)) =
           fst (normalize_context (loaded w self) ctx)"
    by (simp add: normalize_context_closed [OF assms] normalize_context_closed [OF cc] Let_def)
  from a b c d e show ?thesis by blast
qed

text \<open>
  Claim C10. With a filter that is not empty, \<^verbatim>\<open>download_test_suites\<close> downloads the
  suites of the catalogue whose name equals a name of the filter exactly, and returns; when
  no suite matches it downloads nothing and adds no event to those of the loader. The run
  path, for the same filter, selects by equality of names letter case apart and raises when
  nothing is selected.
\<close>

theorem download_filter_is_case_sensitive:
  assumes "names \<noteq> []"
  shows "fst (download_test_suites w self (Some names) jobs keep_file) = Returned
       \<and> downloads (snd (snd (download_test_suites w self (Some names) jobs keep_file))) =
           filter (\<lambda>t. list_ex (\<lambda>n. ts_name t = n) names) (catalogue w self)
       \<and> (filter (\<lambda>t. list_ex (\<lambda>n. ts_name t = n) names) (catalogue w self) = [] \<longrightarrow>
            snd (snd (download_test_suites w self (Some names) jobs keep_file)) =
              snd (load_test_suites w self))
       \<and> (caller_context ctx \<and> ctx_test_suites ctx = PNames names \<longrightarrow>
            selected_suites w self ctx =
              filter (\<lambda>t. list_ex (\<lambda>n. lower (ts_name t) = lower n) names) (catalogue w self)
          \<and> (selected_suites w self ctx = [] \<longrightarrow>
               outcome_of (run_test_suites w self ctx) =
                 Raised (NoMatch ''test suite'' (map lower names))))"
proof -
  have a: "fst (download_test_suites w self (Some names) jobs keep_file) = Returned"
    by (simp add: download_closed)
  have b: "downloads (snd (snd (download_test_suites w self (Some names) jobs keep_file))) =
           filter (\<lambda>t. list_ex (\<lambda>n. ts_name t = n) names) (catalogue w self)"
    using assms by (simp add: download_closed)
  have c: "filter (\<lambda>t. list_ex (\<lambda>n. ts_name t = n) names) (catalogue w self) = [] \<longrightarrow>
            snd (snd (download_test_suites w self (Some names) jobs keep_file)) =
              snd (load_test_suites w self)"
    using assms by (simp add: download_closed)
  have d: "caller_context ctx \<and> ctx_test_suites ctx = PNames names \<longrightarrow>
            selected_suites w self ctx =
              filter (\<lambda>t. list_ex (\<lambda>n. lower (ts_name t) = lower n) names) (catalogue w self)
          \<and> (selected_suites w self ctx = [] \<longrightarrow>
               outcome_of (run_test_suites w self ctx) =
                 Raised (NoMatch ''test suite'' (map lower names)))"
  proof (intro impI, elim conjE)
    assume cc: "caller_context ctx" and n: "ctx_test_suites ctx = PNames names"
    have r: "requested (ctx_test_suites ctx) = names" using n by (simp add: requested_def)
    have s: "selected_suites w self ctx =
              filter (\<lambda>t. list_ex (\<lambda>n. lower (ts_name t) = lower n) names) (catalogue w self)"
      using assms by (simp add: selected_suites_def r selection_def)
    have "selected_suites w self ctx = [] \<longrightarrow>
               outcome_of (run_test_suites w self ctx) =
                 Raised (NoMatch ''test suite'' (map lower names))"
      using unresolved_raises(1) [OF cc, of w self] assms r by (auto simp: resolves_def)
    with s show "selected_suites w self ctx =
              filter (\<lambda>t. list_ex (\<lambda>n. lower (ts_name t) = lower n) names) (catalogue w self)
          \<and> (selected_suites w self ctx = [] \<longrightarrow>
               outcome_of (run_test_suites w self ctx) =
                 Raised (NoMatch ''test suite'' (map lower names)))" by blast
  qed
  from a b c d show ?thesis by blast
qed

subsection \<open>The claims at concrete inputs\<close>

text \<open>
  Reference mode with the three decoders of the registry selected: the error lists them,
  and nothing is run.
\<close>

theorem reference_needs_one_decoder_witness:
  "resolves failing_world ready_fluster reference_context
   \<and> ctx_reference reference_context
   \<and> selected_decoders ready_fluster reference_context = [ffmpeg_h264, gst_h264, ffmpeg_h265]
   \<and> outcome_of (run_test_suites failing_world ready_fluster reference_context) =
       Raised (Exception
         ''Only one decoder can be the reference. Given: FFmpeg-H.264, GStreamer-H.264, FFmpeg-H.265'')
   \<and> runs (trace_of (run_test_suites failing_world ready_fluster reference_context)) = []"
proof -
  let ?c = reference_context
  have h1: "resolves failing_world ready_fluster ?c"
    by (simp add: resolve_defs ready_fluster_def context_defs)
  have h2: "ctx_reference ?c" by (simp add: context_defs)
  have d: "selected_decoders ready_fluster ?c = [ffmpeg_h264, gst_h264, ffmpeg_h265]"
    by (rule ready_selection) (simp add: context_defs)
  show ?thesis
    using reference_needs_one_decoder [OF h1 h2] h1 h2 d
    by (simp add: reference_error_def suite_defs)
qed

text \<open>
  The H.265 decoder adds nothing to the loop over the decoders of the H.264 suite, and a
  run that is not cut short runs the three pairs with equal codecs.
\<close>

theorem codec_gate_witness:
  "configured failing_world ready_fluster plain_context
   \<and> run_summaries_defined failing_world ready_fluster plain_context
   \<and> run_decoders failing_world ready_fluster plain_context good_suite
        [ffmpeg_h265, ffmpeg_h264] ([], False, []) =
       run_decoders failing_world ready_fluster plain_context good_suite
        [ffmpeg_h264] ([], False, [])
   \<and> run_names (trace_of (run_test_suites failing_world ready_fluster plain_context)) =
        [(''JVT-AVC_V1'', ''FFmpeg-H.264''), (''JVT-AVC_V1'', ''GStreamer-H.264''),
         (''JCT-VC-HEVC_V1'', ''FFmpeg-H.265'')]"
proof -
  let ?c = plain_context and ?w = failing_world
  have h1: "configured ?w ready_fluster ?c"
    by (rule ready_configured) (simp_all add: context_defs)
  have h2: "run_summaries_defined ?w ready_fluster ?c"
    by (rule no_summaries) (simp add: context_defs)
  have p: "run_pairs ?w ready_fluster ?c =
        [(good_suite, ffmpeg_h264), (good_suite, gst_h264), (hevc_suite, ffmpeg_h265)]"
    by (rule ready_pairs) (simp_all add: context_defs)
  have nf: "\<not> ctx_failfast ?c" by (simp add: context_defs)
  have e: "run_executed ?w ready_fluster ?c = run_pairs ?w ready_fluster ?c"
    using nf by (simp add: run_executed_cases)
  have m: "matching good_suite [ffmpeg_h265, ffmpeg_h264] = [ffmpeg_h264]"
    by (simp add: matching_def suite_defs)
  note t = codec_gate [OF h1 h2, where fl = ready_fluster and c = ?c and s = good_suite
      and decs = "[ffmpeg_h265, ffmpeg_h264]" and st = "([], False, [])"]
  show ?thesis
    using t h1 h2
    by (simp add: m e p run_names_def run_call_def run_of_def ts_context_of_def
          to_test_suite_context_def suite_defs)
qed

text \<open>
  Reference mode with the three decoders of the registry selected and \<^verbatim>\<open>failfast\<close> not set:
  the three pairs have equal codecs and none would fail, yet the call raises the error of
  reference mode and runs nothing.
\<close>

lemma reference_context_run:
  "run_pairs w ready_fluster reference_context =
     [(good_suite, ffmpeg_h264), (good_suite, gst_h264), (hevc_suite, ffmpeg_h265)]"
  "outcome_of (run_test_suites w ready_fluster reference_context) =
     Raised (Exception
       ''Only one decoder can be the reference. Given: FFmpeg-H.264, GStreamer-H.264, FFmpeg-H.265'')"
  "runs (trace_of (run_test_suites w ready_fluster reference_context)) = []"
proof -
  let ?c = reference_context
  have r: "resolves w ready_fluster ?c"
    by (simp add: resolve_defs ready_fluster_def context_defs)
  have k: "ctx_reference ?c" by (simp add: context_defs)
  have d: "selected_decoders ready_fluster ?c = [ffmpeg_h264, gst_h264, ffmpeg_h265]"
    by (rule ready_selection) (simp add: context_defs)
  show "run_pairs w ready_fluster ?c =
     [(good_suite, ffmpeg_h264), (good_suite, gst_h264), (hevc_suite, ffmpeg_h265)]"
    by (rule ready_pairs) (simp_all add: context_defs)
  show "outcome_of (run_test_suites w ready_fluster ?c) =
     Raised (Exception
       ''Only one decoder can be the reference. Given: FFmpeg-H.264, GStreamer-H.264, FFmpeg-H.265'')"
    using k by (simp add: run_test_suites_resolved [OF r] d outcome_of_def reference_error_def
          suite_defs)
  show "runs (trace_of (run_test_suites w ready_fluster ?c)) = []"
    using k by (simp add: run_test_suites_resolved [OF r] d trace_of_def)
qed

text \<open>
  Claim C4 as stated fails for a run that does not pass its configuration: \<^verbatim>\<open>failfast\<close> is
  not set and no vector has an error, yet no selected pair is run and the call does not
  return: it raises.
\<close>

theorem without_failfast_all_pairs_run_counterexample:
  "\<not> ctx_failfast reference_context
   \<and> run_pairs passing_world ready_fluster reference_context =
        [(good_suite, ffmpeg_h264), (good_suite, gst_h264), (hevc_suite, ffmpeg_h265)]
   \<and> \<not> list_ex (run_fails passing_world ready_fluster reference_context)
          (run_pairs passing_world ready_fluster reference_context)
   \<and> runs (trace_of (run_test_suites passing_world ready_fluster reference_context)) = []
   \<and> outcome_of (run_test_suites passing_world ready_fluster reference_context) =
       Raised (Exception
         ''Only one decoder can be the reference. Given: FFmpeg-H.264, GStreamer-H.264, FFmpeg-H.265'')"
proof -
  have nf: "\<not> ctx_failfast reference_context" by (simp add: context_defs)
  have np: "\<not> list_ex (run_fails passing_world ready_fluster reference_context)
          (run_pairs passing_world ready_fluster reference_context)"
    by (simp add: list_ex_iff passing_world_passes)
  show ?thesis
    using nf np reference_context_run [of passing_world] by simp
qed

text \<open>
  Claim C5 as stated fails when \<^verbatim>\<open>failfast\<close> cuts the run short: the second H.264 decoder
  and the H.265 decoder are selected and their codecs equal those of the suites, yet the run
  of the first pair fails and only that pair is run. It also fails for a run that does not
  pass its configuration: in reference mode with three decoders selected no pair is run,
  whatever the codecs.
\<close>

theorem codec_gate_counterexample:
  "ctx_failfast failfast_context
   \<and> selected_suites failing_world ready_fluster failfast_context = [good_suite, hevc_suite]
   \<and> selected_decoders ready_fluster failfast_context = [ffmpeg_h264, gst_h264, ffmpeg_h265]
   \<and> dec_codec gst_h264 = ts_codec good_suite
   \<and> dec_codec ffmpeg_h265 = ts_codec hevc_suite
   \<and> run_names (trace_of (run_test_suites failing_world ready_fluster failfast_context)) =
        [(''JVT-AVC_V1'', ''FFmpeg-H.264'')]
   \<and> \<not> ctx_failfast reference_context
   \<and> selected_suites passing_world ready_fluster reference_context = [good_suite, hevc_suite]
   \<and> selected_decoders ready_fluster reference_context = [ffmpeg_h264, gst_h264, ffmpeg_h265]
   \<and> dec_codec ffmpeg_h264 = ts_codec good_suite
   \<and> run_names (trace_of (run_test_suites passing_world ready_fluster reference_context)) = []"
proof -
  let ?w = failing_world and ?c = failfast_context
  have h1: "configured ?w ready_fluster ?c"
    by (rule ready_configured) (simp_all add: context_defs)
  have h2: "run_summaries_defined ?w ready_fluster ?c"
    by (rule no_summaries) (simp add: context_defs)
  have s: "selected_suites ?w ready_fluster ?c = [good_suite, hevc_suite]"
    "selected_decoders ready_fluster ?c = [ffmpeg_h264, gst_h264, ffmpeg_h265]"
    by (rule ready_selection, simp add: context_defs)+
  have p: "run_pairs ?w ready_fluster ?c =
        [(good_suite, ffmpeg_h264), (good_suite, gst_h264), (hevc_suite, ffmpeg_h265)]"
    by (rule ready_pairs) (simp_all add: context_defs)
  have f: "run_fails ?w ready_fluster ?c (good_suite, ffmpeg_h264)"
    by (rule failing_world_fails) (simp_all add: context_defs suite_defs)
  have ff: "ctx_failfast ?c" by (simp add: context_defs)
  have e: "run_executed ?w ready_fluster ?c = [(good_suite, ffmpeg_h264)]"
    using f ff by (simp add: run_executed_cases p)
  have n: "run_names (trace_of (run_test_suites ?w ready_fluster ?c)) =
        [(''JVT-AVC_V1'', ''FFmpeg-H.264'')]"
    using run_closed(2) [OF h1 h2] e
    by (simp add: run_executed_def run_names_def run_call_def run_of_def ts_context_of_def
          to_test_suite_context_def suite_defs)
  have nf: "\<not> ctx_failfast reference_context" by (simp add: context_defs)
  have s2: "selected_suites passing_world ready_fluster reference_context =
              [good_suite, hevc_suite]"
    "selected_decoders ready_fluster reference_context = [ffmpeg_h264, gst_h264, ffmpeg_h265]"
    by (rule ready_selection, simp add: context_defs)+
  have n2: "run_names (trace_of (run_test_suites passing_world ready_fluster
              reference_context)) = []"
    by (simp add: run_names_def reference_context_run(3))
  show ?thesis using s n ff nf s2 n2 by (simp add: suite_defs)
qed

lemma lower_examples:
  "lower ''JVT-AVC_V1'' = ''jvt-avc_v1''"
  "lower ''JCT-VC-HEVC_V1'' = ''jct-vc-hevc_v1''"
  "lower ''jvt-avc_v1'' = ''jvt-avc_v1''"
  "lower ''VP9-Suite'' = ''vp9-suite''"
  "lower ''NoSuchVector'' = ''nosuchvector''"
  by (simp_all add: lower_def lower_char_def)

lemma ready_catalogue: "catalogue w ready_fluster = [good_suite, hevc_suite]"
  by (simp add: catalogue_def load_test_suites_def ready_fluster_def)

lemma ready_load: "load_test_suites w ready_fluster = (ready_fluster, [])"
  by (simp add: load_test_suites_def ready_fluster_def)

lemma suite_context_selection:
  "selected_suites w ready_fluster suite_context = [good_suite]"
  by (simp add: selected_suites_def ready_catalogue selection_def requested_def
        suite_context_def plain_context_def good_suite_def hevc_suite_def lower_examples)

lemma missing_suite_selection:
  "selected_suites w ready_fluster missing_suite_context = []"
  by (simp add: selected_suites_def ready_catalogue selection_def requested_def
        missing_suite_context_def plain_context_def good_suite_def hevc_suite_def lower_examples)

text \<open>
  A filter naming a suite that the catalogue does not hold: the run raises the error with
  the filter in lower case, and nothing is run.
\<close>

theorem unmatched_filter_fails_witness:
  "caller_context missing_suite_context
   \<and> requested (ctx_test_suites missing_suite_context) = [''VP9-Suite'']
   \<and> map ts_name (catalogue passing_world ready_fluster) = [''JVT-AVC_V1'', ''JCT-VC-HEVC_V1'']
   \<and> selected_suites passing_world ready_fluster missing_suite_context = []
   \<and> outcome_of (run_test_suites passing_world ready_fluster missing_suite_context) =
       Raised (NoMatch ''test suite'' [''vp9-suite''])
   \<and> runs (trace_of (run_test_suites passing_world ready_fluster missing_suite_context)) = []"
proof -
  let ?c = missing_suite_context
  have h: "caller_context ?c"
    by (simp add: caller_context_def caller_param_def filter_context_defs context_defs)
  have r: "requested (ctx_test_suites ?c) = [''VP9-Suite'']"
    by (simp add: requested_def filter_context_defs context_defs)
  show ?thesis
    using unmatched_filter_fails [OF h, of passing_world ready_fluster] h r
    by (simp add: missing_suite_selection ready_catalogue suite_defs lower_examples)
qed

text \<open>
  Claim C1 as stated fails for the filter of test vectors: the filter names a vector that
  no suite of the catalogue holds, yet the call raises nothing, hands the filter in lower
  case to the run of every pair, and returns.
\<close>

theorem unmatched_filter_fails_counterexample:
  "ctx_test_vectors vector_context = Some [''NoSuchVector'']
   \<and> map (\<lambda>s. map fst (ts_test_vectors s)) (catalogue passing_world ready_fluster) =
       [[''v1''], [''w1'']]
   \<and> outcome_of (run_test_suites passing_world ready_fluster vector_context) = Returned
   \<and> run_names (trace_of (run_test_suites passing_world ready_fluster vector_context)) =
        [(''JVT-AVC_V1'', ''FFmpeg-H.264''), (''JVT-AVC_V1'', ''GStreamer-H.264''),
         (''JCT-VC-HEVC_V1'', ''FFmpeg-H.265'')]
   \<and> map (\<lambda>c. tsc_test_vectors (snd c))
        (runs (trace_of (run_test_suites passing_world ready_fluster vector_context))) =
        [Some [''nosuchvector''], Some [''nosuchvector''], Some [''nosuchvector'']]"
proof -
  let ?w = passing_world and ?c = vector_context
  have h1: "configured ?w ready_fluster ?c"
    by (rule ready_configured) (simp_all add: filter_context_defs context_defs)
  have h2: "run_summaries_defined ?w ready_fluster ?c"
    by (rule no_summaries) (simp add: filter_context_defs context_defs)
  have p: "run_pairs ?w ready_fluster ?c =
        [(good_suite, ffmpeg_h264), (good_suite, gst_h264), (hevc_suite, ffmpeg_h265)]"
    by (rule ready_pairs) (simp_all add: filter_context_defs context_defs)
  have nf: "\<not> ctx_failfast ?c" by (simp add: filter_context_defs context_defs)
  have e: "run_executed ?w ready_fluster ?c = run_pairs ?w ready_fluster ?c"
    using nf by (simp add: run_executed_cases)
  have tv: "ctx_test_vectors ?c = Some [''NoSuchVector'']"
    by (simp add: filter_context_defs context_defs)
  have o: "outcome_of (run_test_suites ?w ready_fluster ?c) = Returned"
    using run_closed(1) [OF h1 h2] by (simp add: p passing_world_passes)
  have n: "runs (trace_of (run_test_suites ?w ready_fluster ?c)) =
           map (run_call ?w ready_fluster ?c) (run_pairs ?w ready_fluster ?c)"
    using run_closed(2) [OF h1 h2] e by (simp add: run_executed_def)
  show ?thesis
    using tv o
    by (simp add: n p run_names_def run_call_def run_of_def ts_context_of_def
          to_test_suite_context_def resolved_context_def suite_defs ready_catalogue
          lower_examples)
qed

text \<open>
  A run with a filter of suites that returns: the flags and numbers are as on entry, the
  filter has become the selected suite, and the loop has bound \<^verbatim>\<open>test_suite\<close>.
\<close>

theorem context_after_run_witness:
  "caller_context suite_context
   \<and> outcome_of (run_test_suites passing_world ready_fluster suite_context) = Returned
   \<and> ctx_jobs (context_of (run_test_suites passing_world ready_fluster suite_context)) = 1
   \<and> ctx_timeout (context_of (run_test_suites passing_world ready_fluster suite_context)) = 30
   \<and> ctx_test_suites suite_context = PNames [''jvt-avc_v1'']
   \<and> ctx_test_suites (context_of (run_test_suites passing_world ready_fluster suite_context)) =
       PObjs [good_suite]
   \<and> ctx_decoders (context_of (run_test_suites passing_world ready_fluster suite_context)) =
       PObjs [ffmpeg_h264, gst_h264, ffmpeg_h265]
   \<and> ctx_test_suite (context_of (run_test_suites passing_world ready_fluster suite_context)) =
       Some good_suite"
proof -
  let ?w = passing_world and ?c = suite_context
  have cc: "caller_context ?c"
    by (simp add: caller_context_def caller_param_def filter_context_defs context_defs)
  have d: "selected_decoders ready_fluster ?c = [ffmpeg_h264, gst_h264, ffmpeg_h265]"
    by (rule ready_selection) (simp add: filter_context_defs context_defs)
  have s: "selected_suites ?w ready_fluster ?c = [good_suite]"
    by (rule suite_context_selection)
  have nr: "\<not> ctx_reference ?c" by (simp add: filter_context_defs context_defs)
  have h1: "configured ?w ready_fluster ?c"
    using cc nr by (simp add: configured_def resolves_def reference_ok_def s d)
  have h2: "run_summaries_defined ?w ready_fluster ?c"
    by (rule no_summaries) (simp add: filter_context_defs context_defs)
  have o: "outcome_of (run_test_suites ?w ready_fluster ?c) = Returned"
    using run_closed(1) [OF h1 h2] by (simp add: passing_world_passes list_ex_iff)
  have v: "ctx_jobs ?c = 1" "ctx_timeout ?c = 30" "ctx_test_suites ?c = PNames [''jvt-avc_v1'']"
    by (simp_all add: filter_context_defs context_defs)
  show ?thesis
    using context_after_run [of ?w ready_fluster ?c] cc o v by (simp add: s d)
qed

text \<open>
  Claim C7 as stated fails: after a run that returns, \<^verbatim>\<open>test_suites\<close> and \<^verbatim>\<open>decoders\<close>,
  which were \<^verbatim>\<open>None\<close>, hold the lists of objects, and the context has the new attribute
  \<^verbatim>\<open>test_suite\<close>.
\<close>

theorem context_after_run_counterexample:
  "outcome_of (run_test_suites passing_world ready_fluster plain_context) = Returned
   \<and> ctx_test_suites plain_context = PNone
   \<and> ctx_test_suites (context_of (run_test_suites passing_world ready_fluster plain_context)) =
       PObjs [good_suite, hevc_suite]
   \<and> ctx_decoders plain_context = PNone
   \<and> ctx_decoders (context_of (run_test_suites passing_world ready_fluster plain_context)) =
       PObjs [ffmpeg_h264, gst_h264, ffmpeg_h265]
   \<and> ctx_test_suite plain_context = None
   \<and> ctx_test_suite (context_of (run_test_suites passing_world ready_fluster plain_context)) =
       Some hevc_suite"
proof -
  let ?w = passing_world and ?c = plain_context
  have cc: "caller_context ?c"
    by (simp add: caller_context_def caller_param_def context_defs)
  have h1: "configured ?w ready_fluster ?c"
    by (rule ready_configured) (simp_all add: context_defs)
  have h2: "run_summaries_defined ?w ready_fluster ?c"
    by (rule no_summaries) (simp add: context_defs)
  have o: "outcome_of (run_test_suites ?w ready_fluster ?c) = Returned"
    using run_closed(1) [OF h1 h2] by (simp add: passing_world_passes list_ex_iff)
  have s: "selected_suites ?w ready_fluster ?c = [good_suite, hevc_suite]"
    "selected_decoders ready_fluster ?c = [ffmpeg_h264, gst_h264, ffmpeg_h265]"
    by (rule ready_selection, simp add: context_defs)+
  have v: "ctx_test_suites ?c = PNone" "ctx_decoders ?c = PNone" "ctx_test_suite ?c = None"
    by (simp_all add: context_defs)
  show ?thesis
    using o v by (simp add: returned_context [OF cc o] resolved_context_def s)
qed

text \<open>
  A filter that names a suite of the catalogue in another letter case: the download path
  downloads nothing and returns, the run path selects the suite.
\<close>

theorem download_filter_is_case_sensitive_witness:
  "[''jvt-avc_v1''] \<noteq> []
   \<and> map ts_name (catalogue passing_world ready_fluster) = [''JVT-AVC_V1'', ''JCT-VC-HEVC_V1'']
   \<and> fst (download_test_suites passing_world ready_fluster (Some [''jvt-avc_v1'']) 4 False) =
       Returned
   \<and> snd (snd (download_test_suites passing_world ready_fluster (Some [''jvt-avc_v1'']) 4 False)) = []
   \<and> caller_context suite_context
   \<and> ctx_test_suites suite_context = PNames [''jvt-avc_v1'']
   \<and> selected_suites passing_world ready_fluster suite_context = [good_suite]"
proof -
  have h: "[''jvt-avc_v1''] \<noteq> ([] :: string list)" by simp
  have cc: "caller_context suite_context"
    by (simp add: caller_context_def caller_param_def filter_context_defs context_defs)
  have n: "ctx_test_suites suite_context = PNames [''jvt-avc_v1'']"
    by (simp add: filter_context_defs context_defs)
  show ?thesis
    using download_filter_is_case_sensitive [OF h, of passing_world ready_fluster 4 False
        suite_context] cc n
    by (simp add: ready_catalogue ready_load suite_defs lower_examples)
qed

subsection \<open>The summary table\<close>

lemma join_concat:
  "join sep (x # xs) = x @ concat (map (\<lambda>l. sep @ l) xs)"
  by (induction xs arbitrary: x) simp_all

text \<open>
  Claim C6. For the results of one suite from one decoder or more, when the result sets
  share their vector names and each counter of successes is the number of vectors without
  errors, \<^verbatim>\<open>_generate_summary\<close> raises nothing and prints, after its heading, the table of the
  specification: a header, a separator, one row per vector with one pass or fail mark per
  decoder, and a totals row with, for each decoder, the count of successful vectors over the
  count of vectors. With two decoders and three vectors, the first decoder passing all and
  the second failing one, the totals read 3/3 and 2/3.
\<close>

theorem summary_table:
  assumes "results \<noteq> []" and "shared_vector_names results" and "success_counted results"
  shows "summary_output results = Inr (join newline (table_lines results))
       \<and> generate_summary results =
           (None, [Print (summary_heading results), Print (join newline (table_lines results))])
       \<and> length (table_lines results) = length (ts_test_vectors (snd (hd results))) + 3"
proof -
  have t: "map (\<lambda>res. str_nat (ts_test_vectors_success (snd res)) @ ''/'' @
                     str_nat (length (ts_test_vectors (snd res))) @ ''|'') results =
           map (\<lambda>res. str_nat (successes (snd res)) @ ''/'' @
                     str_nat (length (ts_test_vectors (snd res))) @ ''|'') results"
    using assms(3) by (simp add: success_counted_def list_all_iff)
  have a: "summary_output results = Inr (join newline (table_lines results))"
    unfolding summary_output_closed [OF assms(1,2)] t
    by (simp add: table_lines_def join_concat totals_row_def map_concat comp_def)
  obtain out where g: "generate_summary results =
        (None, [Print (summary_heading results), Print out])"
      and o: "summary_output results = Inr out"
    using generate_summary_closed [OF assms(1,2)] by blast
  have b: "generate_summary results =
           (None, [Print (summary_heading results), Print (join newline (table_lines results))])"
    using g o a by simp
  have c: "length (table_lines results) = length (ts_test_vectors (snd (hd results))) + 3"
    by (simp add: table_lines_def)
  from a b c show ?thesis by blast
qed

text \<open>The table for two decoders and three vectors.\<close>

theorem summary_table_witness:
  "summary_results \<noteq> []
   \<and> shared_vector_names summary_results
   \<and> success_counted summary_results
   \<and> table_lines summary_results =
       [''|Test|FFmpeg-H.264|GStreamer-H.264|'',
        ''|-|-|-|'',
        ''|v1|'' @ check_mark @ check_mark,
        ''|v2|'' @ check_mark @ cross_mark,
        ''|v3|'' @ check_mark @ check_mark,
        ''|TOTAL|3/3|2/3|'']
   \<and> summary_output summary_results = Inr (join newline (table_lines summary_results))"
proof -
  have h1: "summary_results \<noteq> []" by (simp add: summary_results_def)
  have h2: "shared_vector_names summary_results"
    by (simp add: shared_vector_names_def summary_results_def passed_vector_def
          failed_vector_def)
  have h3: "success_counted summary_results"
    by (simp add: success_counted_def successes_def summary_results_def passed_vector_def
          failed_vector_def)
  have l: "table_lines summary_results =
       [''|Test|FFmpeg-H.264|GStreamer-H.264|'',
        ''|-|-|-|'',
        ''|v1|'' @ check_mark @ check_mark,
        ''|v2|'' @ check_mark @ cross_mark,
        ''|v3|'' @ check_mark @ check_mark,
        ''|TOTAL|3/3|2/3|'']"
    by (simp add: table_lines_def header_row_def separator_row_def vector_row_def
          totals_row_def mark_def vector_passes_def successes_def summary_results_def
          passed_vector_def failed_vector_def ffmpeg_h264_def gst_h264_def digit_def
          numeral_2_eq_2)
  show ?thesis
    using summary_table [OF h1 h2 h3] h1 h2 h3 l by simp
qed

end
